theory Spec2Isabelle
  imports Main "HOL-Library.Sublist"
begin

section \<open>Report callbacks of the trading dashboard\<close>

text \<open>
  A shallow embedding of \<^verbatim>\<open>src/webui/callbacks/report_callbacks.py\<close>.
  Python strings are \<^typ>\<open>string\<close>, read as UTF-8 bytes: the emoji of the
  placeholders are written byte by byte. \<^verbatim>\<open>None\<close> is \<^const>\<open>None\<close>, a
  dictionary read with \<^verbatim>\<open>.get\<close> is a map, an ordered dictionary an association
  list. Every place where the Python can raise is a branch returning \<^const>\<open>Inl\<close>.
\<close>

subsection \<open>Python values\<close>

datatype py_error = IndexError | KeyError | TypeError | JSONDecodeError | AttributeError

text \<open>Truthiness of an optional string: \<^verbatim>\<open>None\<close> and \<^verbatim>\<open>""\<close> are false.\<close>

definition truthy :: "string option \<Rightarrow> bool" where
  "truthy v = (case v of None \<Rightarrow> False | Some s \<Rightarrow> s \<noteq> [])"

text \<open>\<^verbatim>\<open>a or b\<close> on optional strings: the first operand when it is truthy.\<close>

definition py_or :: "string option \<Rightarrow> string option \<Rightarrow> string option" where
  "py_or a b = (if truthy a then a else b)"

text \<open>
  \<^verbatim>\<open>xs[i]\<close>: an index below zero counts from the end of the list, an index
  outside the list raises \<^verbatim>\<open>IndexError\<close>.
\<close>

definition py_index :: "'a list \<Rightarrow> int \<Rightarrow> py_error + 'a" where
  "py_index xs i =
     (if 0 \<le> i \<and> i < int (length xs) then Inr (xs ! nat i)
      else if i < 0 \<and> - int (length xs) \<le> i then Inr (xs ! nat (int (length xs) + i))
      else Inl IndexError)"

text \<open>\<^verbatim>\<open>s.split(d)\<close> for a one-character separator: never the empty list.\<close>

fun split_on :: "char \<Rightarrow> string \<Rightarrow> string list" where
  "split_on d [] = [[]]"
| "split_on d (c # cs) =
     (if c = d then [] # split_on d cs
      else (case split_on d cs of [] \<Rightarrow> [[c]] | x # xs \<Rightarrow> (c # x) # xs))"

text \<open>\<^verbatim>\<open>sep.join(xs)\<close>.\<close>

fun join :: "string \<Rightarrow> string list \<Rightarrow> string" where
  "join sep [] = []"
| "join sep [x] = x"
| "join sep (x # y # ys) = x @ sep @ join sep (y # ys)"

text \<open>\<^verbatim>\<open>needle in haystack\<close> on strings.\<close>

fun starts_with :: "string \<Rightarrow> string \<Rightarrow> bool" where
  "starts_with s [] = True"
| "starts_with [] (n # ns) = False"
| "starts_with (c # cs) (n # ns) = (c = n \<and> starts_with cs ns)"

fun str_contains :: "string \<Rightarrow> string \<Rightarrow> bool" where
  "str_contains [] n = (n = [])"
| "str_contains (c # cs) n = (starts_with (c # cs) n \<or> str_contains cs n)"

text \<open>\<^verbatim>\<open>s.replace(a, b)\<close> for one-character \<^verbatim>\<open>a\<close> and \<^verbatim>\<open>b\<close>.\<close>

definition replace_char :: "char \<Rightarrow> char \<Rightarrow> string \<Rightarrow> string" where
  "replace_char a b s = map (\<lambda>c. if c = a then b else c) s"

text \<open>
  \<^verbatim>\<open>s.title()\<close>: a cased character is upper-cased after an uncased one and
  lower-cased after a cased one. Only the letters of ASCII are cased here; the
  source applies \<^verbatim>\<open>title\<close> to its five slot keys only, which are ASCII.
\<close>

definition is_upper :: "char \<Rightarrow> bool" where
  "is_upper c = (65 \<le> (of_char c :: nat) \<and> (of_char c :: nat) \<le> 90)"

definition is_lower :: "char \<Rightarrow> bool" where
  "is_lower c = (97 \<le> (of_char c :: nat) \<and> (of_char c :: nat) \<le> 122)"

definition to_upper :: "char \<Rightarrow> char" where
  "to_upper c = (if is_lower c then char_of ((of_char c :: nat) - 32) else c)"

definition to_lower :: "char \<Rightarrow> char" where
  "to_lower c = (if is_upper c then char_of ((of_char c :: nat) + 32) else c)"

fun title_from :: "bool \<Rightarrow> string \<Rightarrow> string" where
  "title_from prev_cased [] = []"
| "title_from prev_cased (c # cs) =
     (if prev_cased then to_lower c else to_upper c)
       # title_from (is_upper c \<or> is_lower c) cs"

definition title :: "string \<Rightarrow> string" where
  "title s = title_from False s"

text \<open>\<^verbatim>\<open>str(n)\<close> for a length.\<close>

fun str_of_nat :: "nat \<Rightarrow> string" where
  "str_of_nat n =
     (if n < 10 then [char_of (48 + n)]
      else str_of_nat (n div 10) @ [char_of (48 + n mod 10)])"

text \<open>
  \<^verbatim>\<open>s.strip()\<close>: the white space of Python at both ends is removed. The white
  space characters are U+0009..U+000D, U+001C..U+0020, U+0085, U+00A0, U+1680,
  U+2000..U+200A, U+2028, U+2029, U+202F, U+205F and U+3000, here in UTF-8.
\<close>

definition space1 :: "char \<Rightarrow> bool" where
  "space1 a = ((9 \<le> (of_char a :: nat) \<and> (of_char a :: nat) \<le> 13)
     \<or> (28 \<le> (of_char a :: nat) \<and> (of_char a :: nat) \<le> 32))"

definition space2 :: "char \<Rightarrow> char \<Rightarrow> bool" where
  "space2 a b = (a = CHR 0xC2 \<and> (b = CHR 0x85 \<or> b = CHR 0xA0))"

definition space3 :: "char \<Rightarrow> char \<Rightarrow> char \<Rightarrow> bool" where
  "space3 a b c =
     ((a = CHR 0xE1 \<and> b = CHR 0x9A \<and> c = CHR 0x80)
      \<or> (a = CHR 0xE2 \<and> b = CHR 0x80
           \<and> ((128 \<le> (of_char c :: nat) \<and> (of_char c :: nat) \<le> 138)
                \<or> c = CHR 0xA8 \<or> c = CHR 0xA9 \<or> c = CHR 0xAF))
      \<or> (a = CHR 0xE2 \<and> b = CHR 0x81 \<and> c = CHR 0x9F)
      \<or> (a = CHR 0xE3 \<and> b = CHR 0x80 \<and> c = CHR 0x80))"

fun lstrip :: "string \<Rightarrow> string" where
  "lstrip (a # b # c # cs) =
     (if space1 a then lstrip (b # c # cs)
      else if space2 a b then lstrip (c # cs)
      else if space3 a b c then lstrip cs
      else a # b # c # cs)"
| "lstrip [a, b] =
     (if space1 a then lstrip [b] else if space2 a b then [] else [a, b])"
| "lstrip [a] = (if space1 a then [] else [a])"
| "lstrip [] = []"

text \<open>The same from the right end, on the reversed string.\<close>

fun rstrip_rev :: "string \<Rightarrow> string" where
  "rstrip_rev (c # b # a # cs) =
     (if space1 c then rstrip_rev (b # a # cs)
      else if space2 b c then rstrip_rev (a # cs)
      else if space3 a b c then rstrip_rev cs
      else c # b # a # cs)"
| "rstrip_rev [c, b] =
     (if space1 c then rstrip_rev [b] else if space2 b c then [] else [c, b])"
| "rstrip_rev [c] = (if space1 c then [] else [c])"
| "rstrip_rev [] = []"

definition strip :: "string \<Rightarrow> string" where
  "strip s = rev (rstrip_rev (rev (lstrip s)))"

subsection \<open>The tab router\<close>

definition tab_mapping :: "(string \<times> string) list" where
  "tab_mapping =
     [(''nav-market'', ''market-analysis''),
      (''nav-social'', ''social-sentiment''),
      (''nav-news'', ''news-analysis''),
      (''nav-fundamentals'', ''fundamentals-analysis''),
      (''nav-researcher'', ''researcher-debate''),
      (''nav-research-mgr'', ''research-manager''),
      (''nav-trader'', ''trader-plan''),
      (''nav-risk-agg'', ''risk-debate''),
      (''nav-risk-cons'', ''risk-debate''),
      (''nav-risk-neut'', ''risk-debate''),
      (''nav-final'', ''final-decision'')]"

text \<open>
  \<^verbatim>\<open>switch_tab\<close>. Its click counts are never read. Its first statement is
  \<^verbatim>\<open>ctx = dash.callback_context\<close>, and the name \<^verbatim>\<open>dash\<close> is the one that
  \<^verbatim>\<open>from dash import ..., dash, ...\<close> binds at the top of the file: the submodule
  \<^verbatim>\<open>dash.dash\<close> of the package, not the package. The attribute
  \<^verbatim>\<open>callback_context\<close> belongs to the package; the submodule of Dash up to
  4.1.0 has none, and reading it raises \<^verbatim>\<open>AttributeError\<close>.
  \<open>has_callback_context\<close> says whether the object bound to \<^verbatim>\<open>dash\<close> has the
  attribute; \<open>triggered\<close> is the list of the \<^verbatim>\<open>prop_id\<close> strings that the
  context would give.
\<close>

definition switch_tab :: "bool \<Rightarrow> string list \<Rightarrow> py_error + string" where
  "switch_tab has_callback_context triggered =
     (if \<not> has_callback_context then Inl AttributeError
      else if triggered = [] then Inr ''market-analysis''
      else case py_index triggered 0 of
        Inl e \<Rightarrow> Inl e
      | Inr prop_id \<Rightarrow>
          (case py_index (split_on CHR ''.'' prop_id) 0 of
             Inl e \<Rightarrow> Inl e
           | Inr trigger_id \<Rightarrow>
               Inr (case map_of tab_mapping trigger_id of
                      None \<Rightarrow> ''market-analysis''
                    | Some tab \<Rightarrow> tab)))"

subsection \<open>The shared state\<close>

text \<open>
  The state of one symbol, a dictionary in the source. \<^verbatim>\<open>current_reports\<close> and
  \<^verbatim>\<open>agent_statuses\<close> are read with \<^verbatim>\<open>.get\<close> only: a missing key and a key
  holding \<^verbatim>\<open>None\<close> are both \<^const>\<open>None\<close>. \<^verbatim>\<open>analysis_complete\<close>,
  \<^verbatim>\<open>recommended_action\<close> and \<^verbatim>\<open>risk_debate_state\<close> may be absent.
  \<^verbatim>\<open>analysis_results\<close> is \<^verbatim>\<open>None\<close> or a dictionary of strings.
\<close>

record risk_debate =
  history :: "string option"

record symbol_state =
  current_reports :: "string \<rightharpoonup> string"
  agent_statuses :: "string \<rightharpoonup> string"
  analysis_complete :: "bool option"
  analysis_results :: "(string \<times> string) list option"
  recommended_action :: "string option"
  risk_debate_state :: "risk_debate option"
  ticker_symbol :: string

text \<open>
  \<^verbatim>\<open>app_state\<close>: \<^verbatim>\<open>symbol_states\<close> is an insertion-ordered dictionary from
  symbol to state.

  Modelled from the spec: \<^verbatim>\<open>get_state(symbol) -> SymbolState | None\<close> is a method
  of the store whose code is not part of the excerpt; it is the field
  \<open>get_state\<close>, and \<^const>\<open>None\<close> stands for every falsy result.
\<close>

record app_state =
  symbol_states :: "(string \<times> symbol_state) list"
  current_symbol :: "string option"
  get_state :: "string \<Rightarrow> symbol_state option"

subsection \<open>Rendered components\<close>

text \<open>
  \<^verbatim>\<open>dcc.Markdown\<close> and \<^verbatim>\<open>html.Iframe\<close> with their text; the style arguments
  are the same constants at every call.
\<close>

datatype component = Markdown string | Iframe string

definition create_markdown_content :: "string \<Rightarrow> string \<Rightarrow> component" where
  "create_markdown_content content default_message =
     Markdown (if content = [] \<or> strip content = [] then default_message else content)"

definition default_message :: string where
  "default_message = ''No content available yet.''"

definition out_of_range_message :: string where
  "out_of_range_message = ''Page index out of range. Please refresh or restart analysis.''"

subsection \<open>The debate tabs and the symbol label\<close>

text \<open>
  \<^verbatim>\<open>active_page\<close> is \<^verbatim>\<open>None\<close> or an integer; \<^verbatim>\<open>not active_page\<close> holds for
  \<^verbatim>\<open>None\<close> and for 0. The renderers of \<^verbatim>\<open>webui.components.ui\<close> are parameters.
\<close>

definition update_researcher_debate ::
  "(string \<Rightarrow> string) \<Rightarrow> app_state \<Rightarrow> int option \<Rightarrow> py_error + component" where
  "update_researcher_debate render_researcher_debate app active_page =
     (case active_page of
        None \<Rightarrow> Inr (create_markdown_content [] ''No researcher debate available yet.'')
      | Some p \<Rightarrow>
          if symbol_states app = [] \<or> p = 0
          then Inr (create_markdown_content [] ''No researcher debate available yet.'')
          else let symbols_list = map fst (symbol_states app) in
            if p > int (length symbols_list)
            then Inr (create_markdown_content [] out_of_range_message)
            else (case py_index symbols_list (p - 1) of
                    Inl e \<Rightarrow> Inl e
                  | Inr symbol \<Rightarrow> Inr (Iframe (render_researcher_debate symbol))))"

definition update_risk_debate ::
  "(string \<Rightarrow> string) \<Rightarrow> app_state \<Rightarrow> int option \<Rightarrow> py_error + component" where
  "update_risk_debate render_risk_debate app active_page =
     (case active_page of
        None \<Rightarrow> Inr (create_markdown_content [] ''No risk debate available yet.'')
      | Some p \<Rightarrow>
          if symbol_states app = [] \<or> p = 0
          then Inr (create_markdown_content [] ''No risk debate available yet.'')
          else let symbols_list = map fst (symbol_states app) in
            if p > int (length symbols_list)
            then Inr (create_markdown_content [] out_of_range_message)
            else (case py_index symbols_list (p - 1) of
                    Inl e \<Rightarrow> Inl e
                  | Inr symbol \<Rightarrow> Inr (Iframe (render_risk_debate symbol))))"

text \<open>The label is the bar-chart emoji U+1F4CA, a space and the symbol.\<close>

definition update_report_display_text :: "app_state \<Rightarrow> int option \<Rightarrow> py_error + string" where
  "update_report_display_text app active_page =
     (case active_page of
        None \<Rightarrow> Inr []
      | Some p \<Rightarrow>
          if symbol_states app = [] \<or> p = 0 then Inr []
          else let symbols_list = map fst (symbol_states app) in
            if p > int (length symbols_list) then Inr ''Invalid page''
            else (case py_index symbols_list (p - 1) of
                    Inl e \<Rightarrow> Inl e
                  | Inr symbol \<Rightarrow>
                      Inr ([CHR 0xF0, CHR 0x9F, CHR 0x93, CHR 0x8A] @ '' '' @ symbol)))"

subsection \<open>The report tabs\<close>

text \<open>The text of an optional string that is known to be truthy.\<close>

definition text_of :: "string option \<Rightarrow> string" where
  "text_of v = (case v of None \<Rightarrow> [] | Some s \<Rightarrow> s)"

definition slot_title :: "string \<Rightarrow> string" where
  "slot_title report_type = title (replace_char CHR ''_'' CHR '' '' report_type)"

text \<open>
  The body of the loop over \<^verbatim>\<open>analyst_reports.items()\<close>: the entry written to
  \<^verbatim>\<open>validated_reports\<close> for one slot. The placeholders start with U+1F504 and
  U+23F3.

  Modelled from the spec: \<^verbatim>\<open>validate_reports_for_ui\<close> of
  \<^verbatim>\<open>webui.utils.report_validator\<close> maps a mapping of one slot to text to a mapping
  of that slot to text; \<open>validate report_type content\<close> is
  \<^verbatim>\<open>validate_reports_for_ui({report_type: content})[report_type]\<close>.
\<close>

definition validated_report ::
  "(string \<Rightarrow> string \<Rightarrow> string) \<Rightarrow> string \<Rightarrow> string option \<Rightarrow> string option \<Rightarrow> string" where
  "validated_report validate report_type content status =
     (if status = Some ''completed'' \<and> truthy content then text_of content
      else if status = Some ''in_progress''
      then [CHR 0xF0, CHR 0x9F, CHR 0x94, CHR 0x84] @ '' '' @ slot_title report_type
             @ '' - Analysis in progress...''
      else if status = Some ''pending''
      then [CHR 0xE2, CHR 0x8F, CHR 0xB3] @ '' '' @ slot_title report_type
             @ '' - Waiting to start...''
      else if truthy content then validate report_type (text_of content)
      else ''No '' @ slot_title report_type @ '' available yet.'')"

definition analyst_reports :: "(string \<rightharpoonup> string) \<Rightarrow> (string \<times> string option) list" where
  "analyst_reports reports =
     [(''market_report'', reports ''market_report''),
      (''sentiment_report'', reports ''sentiment_report''),
      (''news_report'', reports ''news_report''),
      (''fundamentals_report'', reports ''fundamentals_report''),
      (''macro_report'', reports ''macro_report'')]"

definition analyst_status_map :: "(string \<rightharpoonup> string) \<Rightarrow> (string \<times> string option) list" where
  "analyst_status_map statuses =
     [(''market_report'', statuses ''Market Analyst''),
      (''sentiment_report'', statuses ''Social Analyst''),
      (''news_report'', statuses ''News Analyst''),
      (''fundamentals_report'', statuses ''Fundamentals Analyst''),
      (''macro_report'', statuses ''Macro Analyst'')]"

text \<open>\<^verbatim>\<open>d.get(k)\<close> on a dictionary whose values may be \<^verbatim>\<open>None\<close>.\<close>

definition get_opt :: "(string \<times> string option) list \<Rightarrow> string \<Rightarrow> string option" where
  "get_opt d k = (case map_of d k of None \<Rightarrow> None | Some v \<Rightarrow> v)"

definition validated_reports ::
  "(string \<Rightarrow> string \<Rightarrow> string) \<Rightarrow> symbol_state \<Rightarrow> (string \<times> string) list" where
  "validated_reports validate state =
     map (\<lambda>(report_type, content).
            (report_type,
             validated_report validate report_type content
               (get_opt (analyst_status_map (agent_statuses state)) report_type)))
         (analyst_reports (current_reports state))"

text \<open>\<^verbatim>\<open>d.get(k, default)\<close>.\<close>

definition get_default :: "(string \<times> string) list \<Rightarrow> string \<Rightarrow> string \<Rightarrow> string" where
  "get_default d k dflt = (case map_of d k of None \<Rightarrow> dflt | Some v \<Rightarrow> v)"

text \<open>
  The part of \<^verbatim>\<open>update_tabs_content\<close> after the state has been found. The
  source returns a tuple of eight components here and a list of eight in the early
  exits; both are lists in the model.
\<close>

definition tabs_of_state ::
  "(string \<Rightarrow> string \<Rightarrow> string) \<Rightarrow> symbol_state \<Rightarrow> component list" where
  "tabs_of_state validate state =
     (let reports = current_reports state;
          validated = validated_reports validate state;
          market_report = get_default validated ''market_report''
            ''No market analysis available yet.'';
          sentiment_report = get_default validated ''sentiment_report''
            ''No sentiment analysis available yet.'';
          news_report = get_default validated ''news_report''
            ''No news analysis available yet.'';
          fundamentals_report = get_default validated ''fundamentals_report''
            ''No fundamentals analysis available yet.'';
          macro_report = get_default validated ''macro_report''
            ''No macro analysis available yet.'';
          research_manager_report =
            text_of (py_or (reports ''research_manager_report'')
              (Some ''No research manager decision available yet.''));
          trader_report =
            text_of (py_or (reports ''trader_investment_plan'')
              (Some ''No trader report available yet.''));
          portfolio_report =
            text_of (py_or (reports ''final_trade_decision'')
              (Some ''No final decision available yet.''))
      in [create_markdown_content market_report default_message,
          create_markdown_content sentiment_report default_message,
          create_markdown_content news_report default_message,
          create_markdown_content fundamentals_report default_message,
          create_markdown_content macro_report default_message,
          create_markdown_content research_manager_report default_message,
          create_markdown_content trader_report default_message,
          create_markdown_content portfolio_report default_message])"

definition update_tabs_content ::
  "(string \<Rightarrow> string \<Rightarrow> string) \<Rightarrow> app_state \<Rightarrow> int option \<Rightarrow> py_error + component list" where
  "update_tabs_content validate app active_page =
     (case active_page of
        None \<Rightarrow> Inr (replicate 8 (create_markdown_content [] ''No analysis available yet.''))
      | Some p \<Rightarrow>
          if symbol_states app = [] \<or> p = 0
          then Inr (replicate 8 (create_markdown_content [] ''No analysis available yet.''))
          else let symbols_list = map fst (symbol_states app) in
            if p > int (length symbols_list)
            then Inr (replicate 8 (create_markdown_content [] out_of_range_message))
            else (case py_index symbols_list (p - 1) of
                    Inl e \<Rightarrow> Inl e
                  | Inr symbol \<Rightarrow>
                      (case get_state app symbol of
                         None \<Rightarrow>
                           Inr (replicate 8
                                  (create_markdown_content [] ''No data for this symbol.''))
                       | Some state \<Rightarrow> Inr (tabs_of_state validate state))))"

subsection \<open>The decision summary\<close>

text \<open>\<^verbatim>\<open>state.get("risk_debate_state", {}).get("history")\<close>.\<close>

definition risk_history :: "symbol_state \<Rightarrow> string option" where
  "risk_history state =
     (case risk_debate_state state of None \<Rightarrow> None | Some r \<Rightarrow> history r)"

text \<open>
  The list \<^verbatim>\<open>available_reports\<close> of the partial branch: eight tests of
  truthiness and one test \<^verbatim>\<open>is not None\<close>.
\<close>

definition available_reports :: "symbol_state \<Rightarrow> string list" where
  "available_reports state =
     (if truthy (current_reports state ''market_report'')
        then [''Market Analysis''] else [])
     @ (if truthy (current_reports state ''sentiment_report'')
        then [''Social Media Sentiment''] else [])
     @ (if truthy (current_reports state ''news_report'')
        then [''News Analysis''] else [])
     @ (if truthy (current_reports state ''fundamentals_report'')
        then [''Fundamentals Analysis''] else [])
     @ (if truthy (current_reports state ''macro_report'')
        then [''Macro Analysis''] else [])
     @ (if truthy (current_reports state ''research_manager_report'')
        then [''Research Manager Decision''] else [])
     @ (if truthy (current_reports state ''trader_investment_plan'')
        then [''Trader Investment Plan''] else [])
     @ (if truthy (risk_history state)
        then [''Risk Debate''] else [])
     @ (if current_reports state ''final_trade_decision'' \<noteq> None
        then [''Portfolio Manager Final Decision''] else [])"

text \<open>The last message of the risk debate: \<^verbatim>\<open>risk_history.split('\n')[-1]\<close>.\<close>

definition risk_debate_latest :: "symbol_state \<Rightarrow> py_error + string" where
  "risk_debate_latest state =
     (if truthy (risk_history state)
      then py_index (split_on CHR ''\<newline>'' (text_of (risk_history state))) (- 1)
      else Inr [])"

text \<open>The chain of \<^verbatim>\<open>or\<close> that picks \<^verbatim>\<open>current_decision\<close>.\<close>

definition current_decision :: "symbol_state \<Rightarrow> string \<Rightarrow> string option" where
  "current_decision state latest =
     py_or (py_or (py_or (current_reports state ''final_trade_decision'') (Some latest))
              (current_reports state ''trader_investment_plan''))
       (current_reports state ''research_manager_report'')"

text \<open>The branch taken when the analysis is complete and the final report is not \<^verbatim>\<open>None\<close>.\<close>

definition final_decision_text :: "symbol_state \<Rightarrow> string \<Rightarrow> string" where
  "final_decision_text state final_report_content =
     (case analysis_results state of
        Some (r # rs) \<Rightarrow>
          ''## Final Decision for '' @ ticker_symbol state @ ''\<newline>\<newline>''
          @ ''**Trade Action:** '' @ get_default (r # rs) ''decision'' ''No decision''
          @ ''\<newline>\<newline>''
          @ ''**Date:** '' @ get_default (r # rs) ''date'' ''N/A''
      | _ \<Rightarrow>
          ''## Final Decision for '' @ ticker_symbol state @ ''\<newline>\<newline>''
          @ (if truthy (recommended_action state)
             then ''**'' @ [CHR 0xF0, CHR 0x9F, CHR 0x93, CHR 0x88]
                  @ '' RECOMMENDED ACTION: '' @ text_of (recommended_action state)
                  @ ''**\<newline>\<newline>''
             else [])
          @ ''**Full Analysis:**\<newline>''
          @ final_report_content)"

text \<open>The other branch: the partial summary.\<close>

definition partial_decision_text :: "symbol_state \<Rightarrow> py_error + string" where
  "partial_decision_text state =
     (if available_reports state \<noteq> []
      then (case risk_debate_latest state of
              Inl e \<Rightarrow> Inl e
            | Inr latest \<Rightarrow>
                Inr (''## Partial Analysis for '' @ ticker_symbol state @ ''\<newline>\<newline>''
                     @ ''**Completed Reports:** '' @ join '', '' (available_reports state)
                     @ ''\<newline>\<newline>''
                     @ (if truthy (current_decision state latest)
                        then ''**Current Decision:** Based on completed analysis\<newline>\<newline>''
                             @ text_of (current_decision state latest)
                        else [])))
      else Inr ''Analysis not complete yet.'')"

definition decision_text :: "symbol_state \<Rightarrow> py_error + string" where
  "decision_text state =
     (case current_reports state ''final_trade_decision'' of
        Some final_report_content \<Rightarrow>
          if analysis_complete state = Some True
          then Inr (final_decision_text state final_report_content)
          else partial_decision_text state
      | None \<Rightarrow> partial_decision_text state)"

definition update_decision_summary :: "app_state \<Rightarrow> int option \<Rightarrow> py_error + string" where
  "update_decision_summary app active_page =
     (case active_page of
        None \<Rightarrow> Inr ''Analysis not complete yet.''
      | Some p \<Rightarrow>
          if symbol_states app = [] \<or> p = 0 then Inr ''Analysis not complete yet.''
          else let symbols_list = map fst (symbol_states app) in
            if p > int (length symbols_list) then Inr out_of_range_message
            else (case py_index symbols_list (p - 1) of
                    Inl e \<Rightarrow> Inl e
                  | Inr symbol \<Rightarrow>
                      (case get_state app symbol of
                         None \<Rightarrow> Inr ''No data for this symbol.''
                       | Some state \<Rightarrow> decision_text state)))"

subsection \<open>The symbol buttons\<close>

record symbol_button =
  label :: string
  button_index :: nat
  color :: string
  className :: string

definition create_symbol_button :: "string \<Rightarrow> nat \<Rightarrow> bool \<Rightarrow> symbol_button" where
  "create_symbol_button symbol i is_active =
     \<lparr>label = symbol, button_index = i,
      color = (if is_active then ''primary'' else ''outline-primary''),
      className = ''symbol-btn '' @ (if is_active then ''active'' else [])\<rparr>"

text \<open>
  The container of the buttons: the button group alone, or a wrapper holding the
  group and the navigation text.
\<close>

datatype button_container = ButtonGroup "symbol_button list" | Wrapper "symbol_button list" string

text \<open>An output of a callback: \<^verbatim>\<open>dash.no_update\<close> or a value.\<close>

datatype 'a dash_output = no_update | Update 'a

text \<open>A value of the decoded button identifier.\<close>

datatype json_value = JInt int | JStr string

text \<open>\<^verbatim>\<open>any(symbol_clicks)\<close>: a click count is \<^verbatim>\<open>None\<close> or a number.\<close>

definition any_clicks :: "int option list \<Rightarrow> bool" where
  "any_clicks symbol_clicks = list_ex (\<lambda>c. c \<noteq> None \<and> c \<noteq> Some 0) symbol_clicks"

text \<open>
  \<^verbatim>\<open>handle_report_symbol_click\<close>. It writes \<^verbatim>\<open>app_state.current_symbol\<close>, so
  the state is returned with the three outputs. \<^verbatim>\<open>json.loads\<close> is a parameter;
  \<^verbatim>\<open>ctx.triggered\<close> is the list of the triggering \<^verbatim>\<open>prop_id\<close> strings.
\<close>

definition handle_report_symbol_click ::
  "(string \<Rightarrow> py_error + (string \<rightharpoonup> json_value)) \<Rightarrow> app_state \<Rightarrow> int option list
     \<Rightarrow> string list
     \<Rightarrow> py_error + (app_state \<times> int dash_output \<times> int dash_output \<times> button_container dash_output)" where
  "handle_report_symbol_click json_loads app symbol_clicks triggered =
     (if \<not> any_clicks symbol_clicks \<or> triggered = []
      then Inr (app, no_update, no_update, no_update)
      else case py_index triggered 0 of
        Inl e \<Rightarrow> Inl e
      | Inr button_id \<Rightarrow>
          if str_contains button_id ''symbol-btn''
          then (case py_index (split_on CHR ''.'' button_id) 0 of
                  Inl e \<Rightarrow> Inl e
                | Inr id_text \<Rightarrow>
                    (case json_loads id_text of
                       Inl e \<Rightarrow> Inl e
                     | Inr button_data \<Rightarrow>
                         (case button_data ''index'' of
                            None \<Rightarrow> Inl KeyError
                          | Some (JStr s) \<Rightarrow> Inl TypeError
                          | Some (JInt clicked_index) \<Rightarrow>
                              let symbols = map fst (symbol_states app) in
                              if 0 \<le> clicked_index \<and> clicked_index < int (length symbols)
                              then (case py_index symbols clicked_index of
                                      Inl e \<Rightarrow> Inl e
                                    | Inr symbol \<Rightarrow>
                                        let page_number = clicked_index + 1;
                                            buttons =
                                              map (\<lambda>(i, symbol).
                                                     create_symbol_button symbol i
                                                       (int i = clicked_index))
                                                (enumerate 0 symbols);
                                            button_container =
                                              (if length symbols > 1
                                               then Wrapper buttons
                                                      (''Showing '' @ str_of_nat (length symbols)
                                                       @ '' symbols'')
                                               else ButtonGroup buttons)
                                        in Inr (app\<lparr>current_symbol := Some symbol\<rparr>,
                                                Update page_number, Update page_number,
                                                Update button_container))
                              else Inr (app, no_update, no_update, no_update))))
          else Inr (app, no_update, no_update, no_update))"

subsection \<open>Example states\<close>

text \<open>Concrete states on which the theorems below are instantiated.\<close>

definition example_validate :: "string \<Rightarrow> string \<Rightarrow> string" where
  "example_validate report_type content = ''[checked] '' @ content"

definition example_partial :: symbol_state where
  "example_partial =
     \<lparr>current_reports =
        [''market_report'' \<mapsto> ''Uptrend'', ''news_report'' \<mapsto> ''Earnings beat'',
         ''fundamentals_report'' \<mapsto> ''Solid'', ''final_trade_decision'' \<mapsto> ''BUY''],
      agent_statuses =
        [''Market Analyst'' \<mapsto> ''completed'', ''News Analyst'' \<mapsto> ''in_progress'',
         ''Social Analyst'' \<mapsto> ''pending''],
      analysis_complete = Some False,
      analysis_results = None,
      recommended_action = None,
      risk_debate_state = Some \<lparr>history = Some ''Risky: SELL\<newline>Safe: HOLD''\<rparr>,
      ticker_symbol = ''AAPL''\<rparr>"

definition example_done :: symbol_state where
  "example_done =
     \<lparr>current_reports = [''market_report'' \<mapsto> ''Flat'', ''final_trade_decision'' \<mapsto> []],
      agent_statuses = [''Market Analyst'' \<mapsto> ''completed''],
      analysis_complete = Some True,
      analysis_results = None,
      recommended_action = Some ''SELL'',
      risk_debate_state = None,
      ticker_symbol = ''MSFT''\<rparr>"

definition example_debate :: symbol_state where
  "example_debate =
     \<lparr>current_reports =
        [''trader_investment_plan'' \<mapsto> ''Buy 10'', ''research_manager_report'' \<mapsto> ''Long''],
      agent_statuses = Map.empty,
      analysis_complete = None,
      analysis_results = None,
      recommended_action = None,
      risk_debate_state = Some \<lparr>history = Some ''Risky: SELL\<newline>Safe: HOLD''\<rparr>,
      ticker_symbol = ''TSLA''\<rparr>"

definition example_app :: app_state where
  "example_app =
     \<lparr>symbol_states =
        [(''AAPL'', example_partial), (''MSFT'', example_done), (''TSLA'', example_debate),
         (''NVDA'', example_debate)],
      current_symbol = None,
      get_state =
        map_of [(''AAPL'', example_partial), (''MSFT'', example_done),
                (''TSLA'', example_debate)]\<rparr>"

definition example_blank :: symbol_state where
  "example_blank =
     \<lparr>current_reports = [''final_trade_decision'' \<mapsto> []],
      agent_statuses = Map.empty,
      analysis_complete = Some False,
      analysis_results = None,
      recommended_action = None,
      risk_debate_state = None,
      ticker_symbol = ''AMD''\<rparr>"

definition blank_app :: app_state where
  "blank_app =
     \<lparr>symbol_states = [(''AMD'', example_blank)],
      current_symbol = None,
      get_state = map_of [(''AMD'', example_blank)]\<rparr>"

text \<open>A state whose market report is one space, with its analyst completed.\<close>

definition example_space :: symbol_state where
  "example_space =
     \<lparr>current_reports = [''market_report'' \<mapsto> '' ''],
      agent_statuses = [''Market Analyst'' \<mapsto> ''completed''],
      analysis_complete = None,
      analysis_results = None,
      recommended_action = None,
      risk_debate_state = None,
      ticker_symbol = ''IBM''\<rparr>"

definition space_app :: app_state where
  "space_app =
     \<lparr>symbol_states = [(''IBM'', example_space)],
      current_symbol = None,
      get_state = map_of [(''IBM'', example_space)]\<rparr>"

text \<open>
  The identifier of the second symbol button as Dash writes it, and a decoder that
  knows this one identifier.
\<close>

definition example_button_id :: string where
  "example_button_id =
     ''{'' @ [CHR 0x22] @ ''component'' @ [CHR 0x22] @ '':'' @ [CHR 0x22] @ ''reports''
     @ [CHR 0x22] @ '','' @ [CHR 0x22] @ ''index'' @ [CHR 0x22] @ '':1,'' @ [CHR 0x22]
     @ ''type'' @ [CHR 0x22] @ '':'' @ [CHR 0x22] @ ''symbol-btn'' @ [CHR 0x22] @ ''}''"

definition example_json_loads :: "string \<Rightarrow> py_error + (string \<rightharpoonup> json_value)" where
  "example_json_loads s =
     (if s = example_button_id
      then Inr [''component'' \<mapsto> JStr ''reports'', ''index'' \<mapsto> JInt 1,
                ''type'' \<mapsto> JStr ''symbol-btn'']
      else Inl JSONDecodeError)"

definition empty_app :: app_state where
  "empty_app = \<lparr>symbol_states = [], current_symbol = None, get_state = (\<lambda>symbol. None)\<rparr>"

section \<open>Properties\<close>

subsection \<open>Splitting and indexing\<close>

lemma split_on_not_Nil: "split_on d s \<noteq> []"
  by (induction s) (auto split: list.splits)

lemma hd_split_on: "hd (split_on d s) = takeWhile (\<lambda>c. c \<noteq> d) s"
  using split_on_not_Nil by (induction s) (auto split: list.splits)

lemma py_index_first: "py_index (x # xs) 0 = Inr x"
  by (simp add: py_index_def)

lemma split_on_first: "py_index (split_on d s) 0 = Inr (takeWhile (\<lambda>c. c \<noteq> d) s)"
  using split_on_not_Nil [of d s] hd_split_on [of d s]
  by (cases "split_on d s") (simp_all add: py_index_def)

lemma split_on_last: "py_index (split_on d s) (- 1) = Inr (last (split_on d s))"
proof -
  obtain x xs where e: "split_on d s = x # xs"
    using split_on_not_Nil [of d s] by (cases "split_on d s") auto
  have "nat (int (length xs)) = length xs" by simp
  then show ?thesis
    unfolding e py_index_def by (simp add: last_conv_nth nat_add_distrib)
qed

lemma py_index_page:
  "1 \<le> p \<Longrightarrow> p \<le> int (length xs) \<Longrightarrow> py_index xs (p - 1) = Inr (xs ! nat (p - 1))"
  by (simp add: py_index_def)

lemma py_index_negative:
  "p < 0 \<Longrightarrow> py_index xs (p - 1) =
     (if 0 \<le> int (length xs) + p - 1 then Inr (xs ! nat (int (length xs) + p - 1))
      else Inl IndexError)"
  by (auto simp add: py_index_def algebra_simps)

lemma slot_titles:
  "slot_title ''market_report'' = ''Market Report''"
  "slot_title ''sentiment_report'' = ''Sentiment Report''"
  "slot_title ''news_report'' = ''News Report''"
  "slot_title ''fundamentals_report'' = ''Fundamentals Report''"
  "slot_title ''macro_report'' = ''Macro Report''"
  by code_simp+

lemma switch_tab_Cons:
  "switch_tab True (prop_id # rest) =
     Inr (case map_of tab_mapping (takeWhile (\<lambda>c. c \<noteq> CHR ''.'') prop_id) of
            None \<Rightarrow> ''market-analysis'' | Some tab \<Rightarrow> tab)"
  by (simp add: switch_tab_def py_index_first split_on_first)

subsection \<open>The tab router\<close>

text \<open>
  Where the object bound to \<^verbatim>\<open>dash\<close> has the attribute, \<^verbatim>\<open>switch_tab\<close> is
  the lookup of the triggering identifier, the part of the first \<^verbatim>\<open>prop_id\<close>
  before its first dot, in the fixed table: no trigger gives
  \<^verbatim>\<open>market-analysis\<close>, each of the three risk triggers gives
  \<^verbatim>\<open>risk-debate\<close>, an identifier that is not a key gives \<^verbatim>\<open>market-analysis\<close>.
\<close>

lemma switch_tab_table:
  "switch_tab True [] = Inr ''market-analysis''
   \<and> switch_tab True (prop_id # rest) =
       Inr (case map_of tab_mapping (takeWhile (\<lambda>c. c \<noteq> CHR ''.'') prop_id) of
              None \<Rightarrow> ''market-analysis'' | Some tab \<Rightarrow> tab)
   \<and> (takeWhile (\<lambda>c. c \<noteq> CHR ''.'') prop_id
          \<in> {''nav-risk-agg'', ''nav-risk-cons'', ''nav-risk-neut''}
        \<longrightarrow> switch_tab True (prop_id # rest) = Inr ''risk-debate'')
   \<and> (takeWhile (\<lambda>c. c \<noteq> CHR ''.'') prop_id \<notin> fst ` set tab_mapping
        \<longrightarrow> switch_tab True (prop_id # rest) = Inr ''market-analysis'')"
proof -
  let ?t = "takeWhile (\<lambda>c. c \<noteq> CHR ''.'') prop_id"
  have none: "switch_tab True [] = Inr ''market-analysis''"
    by (simp add: switch_tab_def)
  have risk: "switch_tab True (prop_id # rest) = Inr ''risk-debate''"
    if "?t \<in> {''nav-risk-agg'', ''nav-risk-cons'', ''nav-risk-neut''}"
    using that by (auto simp add: switch_tab_Cons tab_mapping_def)
  have other: "switch_tab True (prop_id # rest) = Inr ''market-analysis''"
    if "?t \<notin> fst ` set tab_mapping"
  proof -
    from that have "map_of tab_mapping ?t = None"
      by (simp add: map_of_eq_None_iff)
    then show ?thesis by (simp add: switch_tab_Cons)
  qed
  from none risk other show ?thesis
    by (simp add: switch_tab_Cons)
qed


subsection \<open>Pages and symbols\<close>

text \<open>
  Every composer that takes the page starts with the same three steps: the test of
  the registry and the page, the bound on the page, and the indexing of the list
  of symbols. The lemmas below give each composer after the two guards.
\<close>

lemma create_markdown_content_empty:
  "create_markdown_content [] msg = Markdown msg"
  by (simp add: create_markdown_content_def)

lemma update_tabs_content_indexed:
  "p \<noteq> 0 \<Longrightarrow> symbol_states app \<noteq> [] \<Longrightarrow> p \<le> int (length (symbol_states app)) \<Longrightarrow>
   update_tabs_content validate app (Some p) =
     (case py_index (map fst (symbol_states app)) (p - 1) of
        Inl e \<Rightarrow> Inl e
      | Inr symbol \<Rightarrow>
          (case get_state app symbol of
             None \<Rightarrow> Inr (replicate 8 (Markdown ''No data for this symbol.''))
           | Some state \<Rightarrow> Inr (tabs_of_state validate state)))"
  by (simp add: update_tabs_content_def create_markdown_content_empty
      split: sum.splits option.splits)

lemma update_decision_summary_indexed:
  "p \<noteq> 0 \<Longrightarrow> symbol_states app \<noteq> [] \<Longrightarrow> p \<le> int (length (symbol_states app)) \<Longrightarrow>
   update_decision_summary app (Some p) =
     (case py_index (map fst (symbol_states app)) (p - 1) of
        Inl e \<Rightarrow> Inl e
      | Inr symbol \<Rightarrow>
          (case get_state app symbol of
             None \<Rightarrow> Inr ''No data for this symbol.''
           | Some state \<Rightarrow> decision_text state))"
  by (simp add: update_decision_summary_def)

lemma update_researcher_debate_indexed:
  "p \<noteq> 0 \<Longrightarrow> symbol_states app \<noteq> [] \<Longrightarrow> p \<le> int (length (symbol_states app)) \<Longrightarrow>
   update_researcher_debate render app (Some p) =
     (case py_index (map fst (symbol_states app)) (p - 1) of
        Inl e \<Rightarrow> Inl e
      | Inr symbol \<Rightarrow> Inr (Iframe (render symbol)))"
  by (simp add: update_researcher_debate_def)

lemma update_risk_debate_indexed:
  "p \<noteq> 0 \<Longrightarrow> symbol_states app \<noteq> [] \<Longrightarrow> p \<le> int (length (symbol_states app)) \<Longrightarrow>
   update_risk_debate render app (Some p) =
     (case py_index (map fst (symbol_states app)) (p - 1) of
        Inl e \<Rightarrow> Inl e
      | Inr symbol \<Rightarrow> Inr (Iframe (render symbol)))"
  by (simp add: update_risk_debate_def)

lemma update_report_display_text_indexed:
  "p \<noteq> 0 \<Longrightarrow> symbol_states app \<noteq> [] \<Longrightarrow> p \<le> int (length (symbol_states app)) \<Longrightarrow>
   update_report_display_text app (Some p) =
     (case py_index (map fst (symbol_states app)) (p - 1) of
        Inl e \<Rightarrow> Inl e
      | Inr symbol \<Rightarrow> Inr ([CHR 0xF0, CHR 0x9F, CHR 0x93, CHR 0x8A] @ '' '' @ symbol))"
  by (simp add: update_report_display_text_def)

lemmas indexed =
  update_tabs_content_indexed update_decision_summary_indexed update_researcher_debate_indexed
  update_risk_debate_indexed update_report_display_text_indexed

text \<open>
  C5: for a page \<open>p\<close> with \<open>1 \<le> p \<le> len(symbols)\<close> each of the five composers
  works on the symbol \<open>symbols[p - 1]\<close>: the tabs and the decision summary read
  the state of that symbol, the two debate tabs render it, the label shows it.
\<close>

theorem page_resolves_symbol:
  assumes "1 \<le> p" and "p \<le> int (length (symbol_states app))"
    and "symbol = map fst (symbol_states app) ! nat (p - 1)"
  shows "update_tabs_content validate app (Some p) =
           (case get_state app symbol of
              None \<Rightarrow> Inr (replicate 8 (Markdown ''No data for this symbol.''))
            | Some state \<Rightarrow> Inr (tabs_of_state validate state))
         \<and> update_decision_summary app (Some p) =
           (case get_state app symbol of
              None \<Rightarrow> Inr ''No data for this symbol.''
            | Some state \<Rightarrow> decision_text state)
         \<and> update_researcher_debate render_researcher app (Some p) =
             Inr (Iframe (render_researcher symbol))
         \<and> update_risk_debate render_risk app (Some p) = Inr (Iframe (render_risk symbol))
         \<and> update_report_display_text app (Some p) =
             Inr ([CHR 0xF0, CHR 0x9F, CHR 0x93, CHR 0x8A] @ '' '' @ symbol)"
proof -
  from assms(1,2) have ne: "p \<noteq> 0" "symbol_states app \<noteq> []" by auto
  from assms have ix: "py_index (map fst (symbol_states app)) (p - 1) = Inr symbol"
    by (simp add: py_index_page)
  show ?thesis
    by (simp add: indexed [OF ne assms(2)] ix)
qed

theorem page_resolves_symbol_witness:
  "(1::int) \<le> 2 \<and> 2 \<le> int (length (symbol_states example_app))
   \<and> ''MSFT'' = map fst (symbol_states example_app) ! nat (2 - 1)
   \<and> update_report_display_text example_app (Some 2) =
       Inr ([CHR 0xF0, CHR 0x9F, CHR 0x93, CHR 0x8A] @ '' MSFT'')
   \<and> update_researcher_debate (\<lambda>symbol. ''<p>'' @ symbol @ ''</p>'') example_app (Some 2) =
       Inr (Iframe ''<p>MSFT</p>'')"
proof -
  have h: "(1::int) \<le> 2" "2 \<le> int (length (symbol_states example_app))"
    "''MSFT'' = map fst (symbol_states example_app) ! nat (2 - 1)"
    by (simp_all add: example_app_def)
  from h page_resolves_symbol [OF h, of example_validate "\<lambda>symbol. ''<p>'' @ symbol @ ''</p>''" id]
  show ?thesis by simp
qed


text \<open>
  With an empty registry the first guard answers before the bound is looked at:
  page 1 is greater than the number of symbols, and the composers return their
  placeholders for the empty registry, not the out-of-range message.
\<close>

theorem out_of_range_claim_counterexample:
  "1 > int (length (symbol_states empty_app))
   \<and> update_tabs_content example_validate empty_app (Some 1) =
       Inr (replicate 8 (Markdown ''No analysis available yet.''))
   \<and> update_tabs_content example_validate empty_app (Some 1) \<noteq>
       Inr (replicate 8 (Markdown ''Page index out of range. Please refresh or restart analysis.''))
   \<and> update_decision_summary empty_app (Some 1) = Inr ''Analysis not complete yet.''
   \<and> update_report_display_text empty_app (Some 1) = Inr []"
  by (simp add: empty_app_def update_tabs_content_def update_decision_summary_def
      update_report_display_text_def create_markdown_content_empty)

text \<open>
  C4, amended: for a registry that is not empty and a page greater than the number
  of symbols, the tabs return eight copies of the out-of-range message, the
  decision summary and the two debate tabs return that message, and the label
  returns \<^verbatim>\<open>Invalid page\<close>. None of them raises, and the list of symbols is
  not indexed.
\<close>

theorem out_of_range_message_returned:
  assumes "symbol_states app \<noteq> []" and "p > int (length (symbol_states app))"
  shows "update_tabs_content validate app (Some p) =
           Inr (replicate 8
                  (Markdown ''Page index out of range. Please refresh or restart analysis.''))
         \<and> update_decision_summary app (Some p) =
             Inr ''Page index out of range. Please refresh or restart analysis.''
         \<and> update_researcher_debate render_researcher app (Some p) =
             Inr (Markdown ''Page index out of range. Please refresh or restart analysis.'')
         \<and> update_risk_debate render_risk app (Some p) =
             Inr (Markdown ''Page index out of range. Please refresh or restart analysis.'')
         \<and> update_report_display_text app (Some p) = Inr ''Invalid page''"
proof -
  from assms have p: "p \<noteq> 0" "int (length (symbol_states app)) < p" by auto
  show ?thesis
    using assms(1) p
    by (simp add: update_tabs_content_def update_decision_summary_def
        update_researcher_debate_def update_risk_debate_def update_report_display_text_def
        create_markdown_content_empty out_of_range_message_def)
qed

theorem out_of_range_message_returned_witness:
  "symbol_states example_app \<noteq> [] \<and> 5 > int (length (symbol_states example_app))
   \<and> update_decision_summary example_app (Some 5) =
       Inr ''Page index out of range. Please refresh or restart analysis.''
   \<and> update_report_display_text example_app (Some 5) = Inr ''Invalid page''"
proof -
  have h: "symbol_states example_app \<noteq> []" "5 > int (length (symbol_states example_app))"
    by (simp_all add: example_app_def)
  from h out_of_range_message_returned [OF h] show ?thesis by simp
qed

text \<open>
  C9: for a negative page \<open>p\<close> on a registry that is not empty both guards pass.
  With \<open>n\<close> the number of symbols, \<^verbatim>\<open>symbols_list[p - 1]\<close> is the symbol at
  position \<open>n + p - 1\<close> when that is not negative, and \<^verbatim>\<open>IndexError\<close> is raised
  otherwise, in each of the five composers.
\<close>

theorem negative_page_indexes_from_end:
  assumes "p < 0" and "symbol_states app \<noteq> []"
    and "n = int (length (symbol_states app))"
    and "symbol = map fst (symbol_states app) ! nat (n + p - 1)"
  shows "update_tabs_content validate app (Some p) =
           (if 0 \<le> n + p - 1
            then (case get_state app symbol of
                    None \<Rightarrow> Inr (replicate 8 (Markdown ''No data for this symbol.''))
                  | Some state \<Rightarrow> Inr (tabs_of_state validate state))
            else Inl IndexError)
         \<and> update_decision_summary app (Some p) =
           (if 0 \<le> n + p - 1
            then (case get_state app symbol of
                    None \<Rightarrow> Inr ''No data for this symbol.''
                  | Some state \<Rightarrow> decision_text state)
            else Inl IndexError)
         \<and> update_researcher_debate render_researcher app (Some p) =
           (if 0 \<le> n + p - 1 then Inr (Iframe (render_researcher symbol)) else Inl IndexError)
         \<and> update_risk_debate render_risk app (Some p) =
           (if 0 \<le> n + p - 1 then Inr (Iframe (render_risk symbol)) else Inl IndexError)
         \<and> update_report_display_text app (Some p) =
           (if 0 \<le> n + p - 1
            then Inr ([CHR 0xF0, CHR 0x9F, CHR 0x93, CHR 0x8A] @ '' '' @ symbol)
            else Inl IndexError)"
proof -
  from assms(1) have ne: "p \<noteq> 0" and le: "p \<le> int (length (symbol_states app))" by auto
  have ix: "py_index (map fst (symbol_states app)) (p - 1) =
      (if 0 \<le> n + p - 1 then Inr symbol else Inl IndexError)"
    using assms by (simp add: py_index_negative)
  show ?thesis
    by (simp add: indexed [OF ne assms(2) le] ix)
qed

theorem negative_page_indexes_from_end_witness:
  "(- 1 :: int) < 0 \<and> symbol_states example_app \<noteq> []
   \<and> update_report_display_text example_app (Some (- 1)) =
       Inr ([CHR 0xF0, CHR 0x9F, CHR 0x93, CHR 0x8A] @ '' TSLA'')
   \<and> update_report_display_text example_app (Some (- 4)) = Inl IndexError
   \<and> update_tabs_content example_validate example_app (Some (- 4)) = Inl IndexError"
proof -
  have h1: "(- 1 :: int) < 0" and h4: "(- 4 :: int) < 0"
    and ne: "symbol_states example_app \<noteq> []"
    and n: "4 = int (length (symbol_states example_app))"
    and s1: "''TSLA'' = map fst (symbol_states example_app) ! nat (4 + (- 1) - 1)"
    and s4: "''AAPL'' = map fst (symbol_states example_app) ! nat (4 + (- 4) - 1)"
    by (simp_all add: example_app_def)
  from h1 ne negative_page_indexes_from_end [OF h1 ne n s1, of example_validate id id]
    negative_page_indexes_from_end [OF h4 ne n s4, of example_validate id id]
  show ?thesis by simp
qed


subsection \<open>The eight tabs\<close>

text \<open>The eight entries of the result for a state, slot by slot.\<close>

lemma tabs_of_state_slots:
  "tabs_of_state validate state =
     [create_markdown_content
        (validated_report validate ''market_report'' (current_reports state ''market_report'')
           (agent_statuses state ''Market Analyst'')) default_message,
      create_markdown_content
        (validated_report validate ''sentiment_report'' (current_reports state ''sentiment_report'')
           (agent_statuses state ''Social Analyst'')) default_message,
      create_markdown_content
        (validated_report validate ''news_report'' (current_reports state ''news_report'')
           (agent_statuses state ''News Analyst'')) default_message,
      create_markdown_content
        (validated_report validate ''fundamentals_report''
           (current_reports state ''fundamentals_report'')
           (agent_statuses state ''Fundamentals Analyst'')) default_message,
      create_markdown_content
        (validated_report validate ''macro_report'' (current_reports state ''macro_report'')
           (agent_statuses state ''Macro Analyst'')) default_message,
      create_markdown_content
        (text_of (py_or (current_reports state ''research_manager_report'')
           (Some ''No research manager decision available yet.''))) default_message,
      create_markdown_content
        (text_of (py_or (current_reports state ''trader_investment_plan'')
           (Some ''No trader report available yet.''))) default_message,
      create_markdown_content
        (text_of (py_or (current_reports state ''final_trade_decision'')
           (Some ''No final decision available yet.''))) default_message]"
  by (simp add: tabs_of_state_def validated_reports_def analyst_reports_def
      analyst_status_map_def get_opt_def get_default_def Let_def)

lemma length_tabs_of_state: "length (tabs_of_state validate state) = 8"
  by (simp add: tabs_of_state_slots)


text \<open>
  C3: the claim is that \<^verbatim>\<open>update_tabs_content\<close> returns exactly eight outputs
  for every input. Page \<open>-4\<close> on four symbols passes both guards (the page is
  truthy and not greater than 4) and indexes position \<open>-5\<close> of the list of
  symbols: the callback raises \<^verbatim>\<open>IndexError\<close> and returns no outputs. The guard
  has no lower bound, though its comment calls it a safeguard against an invalid
  page index and the click handler checks \<^verbatim>\<open>0 <= clicked_index < len(symbols)\<close>.
\<close>

theorem tabs_content_negative_page_raises:
  "update_tabs_content example_validate example_app (Some (- 4)) = Inl IndexError
   \<and> \<not> (\<exists>outs. update_tabs_content example_validate example_app (Some (- 4)) = Inr outs
            \<and> length outs = 8)"
  by (simp add: update_tabs_content_def example_app_def py_index_def)

text \<open>
  What the callback does on every input. It returns exactly eight outputs unless
  the page is \<open>p \<le> - len(symbols)\<close> on a registry that is not empty: eight
  copies of one placeholder in each of the three early exits (no symbols or no
  page; page beyond the number of symbols; no state for the symbol), and otherwise
  the tabs in the order market, sentiment, news, fundamentals, macro, research
  manager, trader plan, final decision.
\<close>

lemma tabs_content_eight_outputs:
  "if \<exists>p. active_page = Some p \<and> symbol_states app \<noteq> []
         \<and> p \<le> - int (length (symbol_states app))
   then update_tabs_content validate app active_page = Inl IndexError
   else \<exists>outs. update_tabs_content validate app active_page = Inr outs \<and> length outs = 8
     \<and> (symbol_states app = [] \<or> active_page = None \<or> active_page = Some 0
          \<longrightarrow> outs = replicate 8 (Markdown ''No analysis available yet.''))
     \<and> (\<forall>p. symbol_states app \<noteq> [] \<and> active_page = Some p
            \<and> p > int (length (symbol_states app))
          \<longrightarrow> outs = replicate 8
                (Markdown ''Page index out of range. Please refresh or restart analysis.''))
     \<and> (\<forall>p symbol. symbol_states app \<noteq> [] \<and> active_page = Some p \<and> p \<noteq> 0
            \<and> p \<le> int (length (symbol_states app))
            \<and> py_index (map fst (symbol_states app)) (p - 1) = Inr symbol
          \<longrightarrow> (get_state app symbol = None
                \<longrightarrow> outs = replicate 8 (Markdown ''No data for this symbol.''))
              \<and> (\<forall>state. get_state app symbol = Some state \<longrightarrow> outs =
                   [create_markdown_content
                      (validated_report validate ''market_report''
                         (current_reports state ''market_report'')
                         (agent_statuses state ''Market Analyst'')) default_message,
                    create_markdown_content
                      (validated_report validate ''sentiment_report''
                         (current_reports state ''sentiment_report'')
                         (agent_statuses state ''Social Analyst'')) default_message,
                    create_markdown_content
                      (validated_report validate ''news_report''
                         (current_reports state ''news_report'')
                         (agent_statuses state ''News Analyst'')) default_message,
                    create_markdown_content
                      (validated_report validate ''fundamentals_report''
                         (current_reports state ''fundamentals_report'')
                         (agent_statuses state ''Fundamentals Analyst'')) default_message,
                    create_markdown_content
                      (validated_report validate ''macro_report''
                         (current_reports state ''macro_report'')
                         (agent_statuses state ''Macro Analyst'')) default_message,
                    create_markdown_content
                      (text_of (py_or (current_reports state ''research_manager_report'')
                         (Some ''No research manager decision available yet.'')))
                      default_message,
                    create_markdown_content
                      (text_of (py_or (current_reports state ''trader_investment_plan'')
                         (Some ''No trader report available yet.''))) default_message,
                    create_markdown_content
                      (text_of (py_or (current_reports state ''final_trade_decision'')
                         (Some ''No final decision available yet.''))) default_message]))"
proof -
  let ?n = "int (length (symbol_states app))"
  let ?syms = "map fst (symbol_states app)"
  show ?thesis
  proof (cases "symbol_states app = [] \<or> active_page = None \<or> active_page = Some 0")
    case True
    then have "update_tabs_content validate app active_page =
        Inr (replicate 8 (Markdown ''No analysis available yet.''))"
      by (auto simp add: update_tabs_content_def create_markdown_content_empty
          split: option.splits)
    with True show ?thesis by auto
  next
    case False
    then obtain p where base: "symbol_states app \<noteq> []" "active_page = Some p" "p \<noteq> 0"
      by (cases active_page) auto
    consider (exit2) "p > ?n" | (raise) "p \<le> - ?n" | (found) "- ?n < p" "p \<le> ?n"
      by linarith
    then show ?thesis
    proof cases
    case exit2
    with base have "update_tabs_content validate app active_page =
        Inr (replicate 8
               (Markdown ''Page index out of range. Please refresh or restart analysis.''))"
      by (simp add: update_tabs_content_def create_markdown_content_empty
          out_of_range_message_def)
    with base exit2 show ?thesis by auto
  next
    case raise
    with base have lt: "p < 0" and le: "p \<le> ?n"
      by auto
    from raise lt have "py_index ?syms (p - 1) = Inl IndexError"
      by (simp add: py_index_negative)
    with base have "update_tabs_content validate app active_page = Inl IndexError"
      by (simp add: update_tabs_content_indexed [OF base(3) base(1) le])
    with base raise show ?thesis by auto
  next
    case found
    have "\<exists>symbol. py_index ?syms (p - 1) = Inr symbol"
    proof (cases "p < 0")
      case True
      with found show ?thesis by (simp add: py_index_negative)
    next
      case False
      with base have "1 \<le> p" by auto
      with found show ?thesis by (simp add: py_index_page)
    qed
    then obtain symbol where ix: "py_index ?syms (p - 1) = Inr symbol" ..
    have eq: "update_tabs_content validate app active_page =
        (case get_state app symbol of
           None \<Rightarrow> Inr (replicate 8 (Markdown ''No data for this symbol.''))
         | Some state \<Rightarrow> Inr (tabs_of_state validate state))"
      using base found ix by (simp add: update_tabs_content_indexed)
    from base found have no: "\<not> (\<exists>q. active_page = Some q \<and> symbol_states app \<noteq> [] \<and> q \<le> - ?n)"
      by auto
    show ?thesis
    proof (cases "get_state app symbol")
      case None
      with eq base found ix no show ?thesis by auto
    next
      case (Some state)
      with eq have "update_tabs_content validate app active_page =
          Inr (tabs_of_state validate state)" by simp
      with base found ix no Some show ?thesis
        by (auto simp add: length_tabs_of_state tabs_of_state_slots [symmetric])
    qed
  qed
  qed
qed


lemma tabs_content_eight_outputs_example:
  "\<not> (\<exists>p. Some 1 = Some p \<and> symbol_states example_app \<noteq> []
          \<and> p \<le> - int (length (symbol_states example_app)))
   \<and> (\<exists>outs. update_tabs_content example_validate example_app (Some 1) = Inr outs
          \<and> length outs = 8)"
proof -
  have h: "\<not> (\<exists>p. Some 1 = Some p \<and> symbol_states example_app \<noteq> []
          \<and> p \<le> - int (length (symbol_states example_app)))"
    by (simp add: example_app_def)
  from tabs_content_eight_outputs [of "Some 1" example_app example_validate]
  obtain outs where "update_tabs_content example_validate example_app (Some 1) = Inr outs"
    and "length outs = 8"
    unfolding if_not_P [OF h] by (elim exE conjE)
  with h show ?thesis by (intro conjI exI)
qed

subsection \<open>The analyst slots\<close>

text \<open>The tabs and the decision summary on a page whose symbol has a state.\<close>

lemma update_tabs_content_found:
  assumes "1 \<le> p" and "p \<le> int (length (symbol_states app))"
    and "get_state app (map fst (symbol_states app) ! nat (p - 1)) = Some state"
  shows "update_tabs_content validate app (Some p) = Inr (tabs_of_state validate state)"
proof -
  from assms(1,2) have ne: "p \<noteq> 0" "symbol_states app \<noteq> []" by auto
  show ?thesis
    using assms by (simp add: update_tabs_content_indexed [OF ne assms(2)] py_index_page)
qed

lemma update_decision_summary_found:
  assumes "1 \<le> p" and "p \<le> int (length (symbol_states app))"
    and "get_state app (map fst (symbol_states app) ! nat (p - 1)) = Some state"
  shows "update_decision_summary app (Some p) = decision_text state"
proof -
  from assms(1,2) have ne: "p \<noteq> 0" "symbol_states app \<noteq> []" by auto
  show ?thesis
    using assms by (simp add: update_decision_summary_indexed [OF ne assms(2)] py_index_page)
qed

lemma validated_reports_entries:
  "map_of (validated_reports validate state) =
     [''macro_report'' \<mapsto> validated_report validate ''macro_report''
          (current_reports state ''macro_report'') (agent_statuses state ''Macro Analyst''),
      ''fundamentals_report'' \<mapsto> validated_report validate ''fundamentals_report''
          (current_reports state ''fundamentals_report'')
          (agent_statuses state ''Fundamentals Analyst''),
      ''news_report'' \<mapsto> validated_report validate ''news_report''
          (current_reports state ''news_report'') (agent_statuses state ''News Analyst''),
      ''sentiment_report'' \<mapsto> validated_report validate ''sentiment_report''
          (current_reports state ''sentiment_report'') (agent_statuses state ''Social Analyst''),
      ''market_report'' \<mapsto> validated_report validate ''market_report''
          (current_reports state ''market_report'') (agent_statuses state ''Market Analyst'')]"
  by (simp add: validated_reports_def analyst_reports_def analyst_status_map_def get_opt_def)

lemma validated_report_precedence:
  "validated_report validate report_type content status =
     (if status = Some ''completed'' \<and> content \<noteq> None \<and> content \<noteq> Some [] then the content
      else if status = Some ''in_progress''
      then [CHR 0xF0, CHR 0x9F, CHR 0x94, CHR 0x84] @ '' '' @ slot_title report_type
             @ '' - Analysis in progress...''
      else if status = Some ''pending''
      then [CHR 0xE2, CHR 0x8F, CHR 0xB3] @ '' '' @ slot_title report_type
             @ '' - Waiting to start...''
      else if content \<noteq> None \<and> content \<noteq> Some [] then validate report_type (the content)
      else ''No '' @ slot_title report_type @ '' available yet.'')"
  by (cases content) (simp_all add: validated_report_def truthy_def text_of_def)



lemma analyst_tab_entries:
  "tabs_of_state validate state ! 0 = create_markdown_content
     (validated_report validate ''market_report'' (current_reports state ''market_report'')
        (agent_statuses state ''Market Analyst'')) default_message"
  "tabs_of_state validate state ! 1 = create_markdown_content
     (validated_report validate ''sentiment_report'' (current_reports state ''sentiment_report'')
        (agent_statuses state ''Social Analyst'')) default_message"
  "tabs_of_state validate state ! 2 = create_markdown_content
     (validated_report validate ''news_report'' (current_reports state ''news_report'')
        (agent_statuses state ''News Analyst'')) default_message"
  "tabs_of_state validate state ! 3 = create_markdown_content
     (validated_report validate ''fundamentals_report''
        (current_reports state ''fundamentals_report'')
        (agent_statuses state ''Fundamentals Analyst'')) default_message"
  "tabs_of_state validate state ! 4 = create_markdown_content
     (validated_report validate ''macro_report'' (current_reports state ''macro_report'')
        (agent_statuses state ''Macro Analyst'')) default_message"
  by (simp_all add: tabs_of_state_slots)

lemma validated_reports_lookup:
  "map_of (validated_reports validate state) ''market_report'' =
     Some (validated_report validate ''market_report'' (current_reports state ''market_report'')
        (agent_statuses state ''Market Analyst''))"
  "map_of (validated_reports validate state) ''sentiment_report'' =
     Some (validated_report validate ''sentiment_report''
        (current_reports state ''sentiment_report'') (agent_statuses state ''Social Analyst''))"
  "map_of (validated_reports validate state) ''news_report'' =
     Some (validated_report validate ''news_report'' (current_reports state ''news_report'')
        (agent_statuses state ''News Analyst''))"
  "map_of (validated_reports validate state) ''fundamentals_report'' =
     Some (validated_report validate ''fundamentals_report''
        (current_reports state ''fundamentals_report'')
        (agent_statuses state ''Fundamentals Analyst''))"
  "map_of (validated_reports validate state) ''macro_report'' =
     Some (validated_report validate ''macro_report'' (current_reports state ''macro_report'')
        (agent_statuses state ''Macro Analyst''))"
  by (simp_all add: validated_reports_entries)


text \<open>
  The text resolved for one analyst slot, the entry of \<^verbatim>\<open>validated_reports\<close>,
  by the five steps of the loop, and the tab that is built from it.
\<close>

lemma analyst_slot_resolved:
  assumes slot: "(i, slot, agent, name) \<in> set
      [(0, ''market_report'', ''Market Analyst'', ''Market Report''),
       (1, ''sentiment_report'', ''Social Analyst'', ''Sentiment Report''),
       (2, ''news_report'', ''News Analyst'', ''News Report''),
       (3, ''fundamentals_report'', ''Fundamentals Analyst'', ''Fundamentals Report''),
       (4, ''macro_report'', ''Macro Analyst'', ''Macro Report'')]"
    and page: "1 \<le> p" "p \<le> int (length (symbol_states app))"
    and state: "get_state app (map fst (symbol_states app) ! nat (p - 1)) = Some state"
    and content: "content = current_reports state slot"
    and status: "status = agent_statuses state agent"
    and display: "display =
      (if status = Some ''completed'' \<and> content \<noteq> None \<and> content \<noteq> Some [] then the content
       else if status = Some ''in_progress''
       then [CHR 0xF0, CHR 0x9F, CHR 0x94, CHR 0x84] @ '' '' @ name @ '' - Analysis in progress...''
       else if status = Some ''pending''
       then [CHR 0xE2, CHR 0x8F, CHR 0xB3] @ '' '' @ name @ '' - Waiting to start...''
       else if content \<noteq> None \<and> content \<noteq> Some [] then validate slot (the content)
       else ''No '' @ name @ '' available yet.'')"
  shows "map_of (validated_reports validate state) slot = Some display
         \<and> (\<exists>outs. update_tabs_content validate app (Some p) = Inr outs
              \<and> outs ! i = create_markdown_content display default_message)"
proof -
  have run: "update_tabs_content validate app (Some p) = Inr (tabs_of_state validate state)"
    using page state by (rule update_tabs_content_found)
  have d: "display = validated_report validate slot content status"
    if "slot_title slot = name"
    unfolding display validated_report_precedence that ..
  from slot have "(i = 0 \<and> slot = ''market_report'' \<and> agent = ''Market Analyst''
        \<and> name = ''Market Report'')
    \<or> (i = 1 \<and> slot = ''sentiment_report'' \<and> agent = ''Social Analyst''
        \<and> name = ''Sentiment Report'')
    \<or> (i = 2 \<and> slot = ''news_report'' \<and> agent = ''News Analyst'' \<and> name = ''News Report'')
    \<or> (i = 3 \<and> slot = ''fundamentals_report'' \<and> agent = ''Fundamentals Analyst''
        \<and> name = ''Fundamentals Report'')
    \<or> (i = 4 \<and> slot = ''macro_report'' \<and> agent = ''Macro Analyst'' \<and> name = ''Macro Report'')"
    by simp
  then have both: "map_of (validated_reports validate state) slot = Some display
      \<and> tabs_of_state validate state ! i = create_markdown_content display default_message"
  proof (elim disjE conjE)
    assume a: "i = 0" "slot = ''market_report''" "agent = ''Market Analyst''"
      "name = ''Market Report''"
    then have "slot_title slot = name" by (simp only: slot_titles)
    from d [OF this] show ?thesis
      unfolding content status a by (simp only: analyst_tab_entries validated_reports_lookup)
  next
    assume a: "i = 1" "slot = ''sentiment_report''" "agent = ''Social Analyst''"
      "name = ''Sentiment Report''"
    then have "slot_title slot = name" by (simp only: slot_titles)
    from d [OF this] show ?thesis
      unfolding content status a by (simp only: analyst_tab_entries validated_reports_lookup)
  next
    assume a: "i = 2" "slot = ''news_report''" "agent = ''News Analyst''" "name = ''News Report''"
    then have "slot_title slot = name" by (simp only: slot_titles)
    from d [OF this] show ?thesis
      unfolding content status a by (simp only: analyst_tab_entries validated_reports_lookup)
  next
    assume a: "i = 3" "slot = ''fundamentals_report''" "agent = ''Fundamentals Analyst''"
      "name = ''Fundamentals Report''"
    then have "slot_title slot = name" by (simp only: slot_titles)
    from d [OF this] show ?thesis
      unfolding content status a by (simp only: analyst_tab_entries validated_reports_lookup)
  next
    assume a: "i = 4" "slot = ''macro_report''" "agent = ''Macro Analyst''"
      "name = ''Macro Report''"
    then have "slot_title slot = name" by (simp only: slot_titles)
    from d [OF this] show ?thesis
      unfolding content status a by (simp only: analyst_tab_entries validated_reports_lookup)
  qed
  show ?thesis
  proof (intro conjI exI)
    show "map_of (validated_reports validate state) slot = Some display"
      using both by (rule conjunct1)
    show "update_tabs_content validate app (Some p) = Inr (tabs_of_state validate state)"
      by (rule run)
    show "tabs_of_state validate state ! i = create_markdown_content display default_message"
      using both by (rule conjunct2)
  qed
qed

lemma example_page_1:
  "(1::int) \<le> 1" "1 \<le> int (length (symbol_states example_app))"
  "get_state example_app (map fst (symbol_states example_app) ! nat (1 - 1)) = Some example_partial"
  by (simp_all add: example_app_def)

lemma analyst_slot_resolved_example:
  "(2, ''news_report'', ''News Analyst'', ''News Report'') \<in> set
      [(0::nat, ''market_report'', ''Market Analyst'', ''Market Report''),
       (1, ''sentiment_report'', ''Social Analyst'', ''Sentiment Report''),
       (2, ''news_report'', ''News Analyst'', ''News Report''),
       (3, ''fundamentals_report'', ''Fundamentals Analyst'', ''Fundamentals Report''),
       (4, ''macro_report'', ''Macro Analyst'', ''Macro Report'')]
   \<and> get_state example_app (map fst (symbol_states example_app) ! nat (1 - 1)) =
       Some example_partial
   \<and> current_reports example_partial ''news_report'' = Some ''Earnings beat''
   \<and> agent_statuses example_partial ''News Analyst'' = Some ''in_progress''
   \<and> map_of (validated_reports example_validate example_partial) ''news_report'' =
       Some ([CHR 0xF0, CHR 0x9F, CHR 0x94, CHR 0x84] @ '' News Report - Analysis in progress...'')
   \<and> (\<exists>outs. update_tabs_content example_validate example_app (Some 1) = Inr outs
          \<and> outs ! 2 = create_markdown_content
               ([CHR 0xF0, CHR 0x9F, CHR 0x94, CHR 0x84]
                  @ '' News Report - Analysis in progress...'') default_message)"
proof -
  have slot: "(2, ''news_report'', ''News Analyst'', ''News Report'') \<in> set
      [(0::nat, ''market_report'', ''Market Analyst'', ''Market Report''),
       (1, ''sentiment_report'', ''Social Analyst'', ''Sentiment Report''),
       (2, ''news_report'', ''News Analyst'', ''News Report''),
       (3, ''fundamentals_report'', ''Fundamentals Analyst'', ''Fundamentals Report''),
       (4, ''macro_report'', ''Macro Analyst'', ''Macro Report'')]"
    by simp
  have c: "current_reports example_partial ''news_report'' = Some ''Earnings beat''"
    and s: "agent_statuses example_partial ''News Analyst'' = Some ''in_progress''"
    by (simp_all add: example_partial_def)
  have d: "[CHR 0xF0, CHR 0x9F, CHR 0x94, CHR 0x84] @ '' News Report - Analysis in progress...'' =
      (if Some ''in_progress'' = Some ''completed'' \<and> Some ''Earnings beat'' \<noteq> None
            \<and> Some ''Earnings beat'' \<noteq> Some [] then the (Some ''Earnings beat'')
       else if Some ''in_progress'' = Some ''in_progress''
       then [CHR 0xF0, CHR 0x9F, CHR 0x94, CHR 0x84] @ '' '' @ ''News Report''
              @ '' - Analysis in progress...''
       else if Some ''in_progress'' = Some ''pending''
       then [CHR 0xE2, CHR 0x8F, CHR 0xB3] @ '' '' @ ''News Report'' @ '' - Waiting to start...''
       else if Some ''Earnings beat'' \<noteq> None \<and> Some ''Earnings beat'' \<noteq> Some []
       then example_validate ''news_report'' (the (Some ''Earnings beat''))
       else ''No '' @ ''News Report'' @ '' available yet.'')"
    by simp
  note r = analyst_slot_resolved [where validate = example_validate and app = example_app
      and state = example_partial and content = "Some ''Earnings beat''"
      and status = "Some ''in_progress''", OF slot example_page_1 c [symmetric] s [symmetric] d]
  from slot example_page_1(3) c s r [THEN conjunct1] r [THEN conjunct2]
  show ?thesis by (intro conjI)
qed

text \<open>
  \<^verbatim>\<open>create_markdown_content\<close> replaces a text that is empty or white space
  only by its default message. The three placeholders of a slot are never such a
  text, whatever the name of the slot.
\<close>

lemma strip_Nil: "strip [] = []"
  by (simp add: strip_def)

lemma rstrip_rev_dot: "rstrip_rev (CHR ''.'' # b # a # cs) = CHR ''.'' # b # a # cs"
  by (simp add: space1_def space2_def space3_def)

lemma in_progress_not_blank:
  "strip ([CHR 0xF0, CHR 0x9F, CHR 0x94, CHR 0x84] @ '' '' @ name
     @ '' - Analysis in progress...'') \<noteq> []"
proof -
  have "lstrip (CHR 0xF0 # CHR 0x9F # CHR 0x94 # cs) = CHR 0xF0 # CHR 0x9F # CHR 0x94 # cs" for cs
    by (simp add: space1_def space2_def space3_def)
  then have l: "lstrip ([CHR 0xF0, CHR 0x9F, CHR 0x94, CHR 0x84] @ '' '' @ name
      @ '' - Analysis in progress...'') =
    [CHR 0xF0, CHR 0x9F, CHR 0x94, CHR 0x84] @ '' '' @ name @ '' - Analysis in progress...''"
    by simp
  have "rev ([CHR 0xF0, CHR 0x9F, CHR 0x94, CHR 0x84] @ '' '' @ name
      @ '' - Analysis in progress...'') =
    CHR ''.'' # CHR ''.'' # CHR ''.'' # rev ([CHR 0xF0, CHR 0x9F, CHR 0x94, CHR 0x84] @ '' ''
      @ name @ '' - Analysis in progress'')"
    by simp
  then show ?thesis
    unfolding strip_def l by (simp only: rstrip_rev_dot rev_is_Nil_conv list.distinct simp_thms)
qed

lemma waiting_not_blank:
  "strip ([CHR 0xE2, CHR 0x8F, CHR 0xB3] @ '' '' @ name @ '' - Waiting to start...'') \<noteq> []"
proof -
  have "lstrip (CHR 0xE2 # CHR 0x8F # CHR 0xB3 # cs) = CHR 0xE2 # CHR 0x8F # CHR 0xB3 # cs" for cs
    by (simp add: space1_def space2_def space3_def)
  then have l: "lstrip ([CHR 0xE2, CHR 0x8F, CHR 0xB3] @ '' '' @ name
      @ '' - Waiting to start...'') =
    [CHR 0xE2, CHR 0x8F, CHR 0xB3] @ '' '' @ name @ '' - Waiting to start...''"
    by simp
  have "rev ([CHR 0xE2, CHR 0x8F, CHR 0xB3] @ '' '' @ name @ '' - Waiting to start...'') =
    CHR ''.'' # CHR ''.'' # CHR ''.'' # rev ([CHR 0xE2, CHR 0x8F, CHR 0xB3] @ '' ''
      @ name @ '' - Waiting to start'')"
    by simp
  then show ?thesis
    unfolding strip_def l by (simp only: rstrip_rev_dot rev_is_Nil_conv list.distinct simp_thms)
qed

lemma not_available_not_blank:
  "strip (''No '' @ name @ '' available yet.'') \<noteq> []"
proof -
  have "lstrip (CHR ''N'' # CHR ''o'' # CHR '' '' # cs) = CHR ''N'' # CHR ''o'' # CHR '' '' # cs"
    for cs
    by (simp add: space1_def space2_def space3_def)
  then have l: "lstrip (''No '' @ name @ '' available yet.'') =
      ''No '' @ name @ '' available yet.''"
    by simp
  have "rev (''No '' @ name @ '' available yet.'') =
    CHR ''.'' # CHR ''t'' # CHR ''e'' # rev (''No '' @ name @ '' available y'')"
    by simp
  then show ?thesis
    unfolding strip_def l by (simp only: rstrip_rev_dot rev_is_Nil_conv list.distinct simp_thms)
qed

lemma shown_text:
  assumes "strip p1 \<noteq> []" and "strip p2 \<noteq> []" and "strip p5 \<noteq> []"
  shows "create_markdown_content
      (if status = Some ''completed'' \<and> content \<noteq> None \<and> content \<noteq> Some [] then the content
       else if status = Some ''in_progress'' then p1
       else if status = Some ''pending'' then p2
       else if content \<noteq> None \<and> content \<noteq> Some [] then v
       else p5) d =
    Markdown
      (if status = Some ''completed'' \<and> content \<noteq> None \<and> content \<noteq> Some []
       then (if strip (the content) = [] then d else the content)
       else if status = Some ''in_progress'' then p1
       else if status = Some ''pending'' then p2
       else if content \<noteq> None \<and> content \<noteq> Some []
       then (if strip v = [] then d else v)
       else p5)"
proof -
  have blank: "create_markdown_content x d = Markdown (if strip x = [] then d else x)" for x
    by (cases "x = []") (simp_all add: create_markdown_content_def strip_Nil)
  from assms show ?thesis
    unfolding blank by (simp only: if_distrib [of "\<lambda>x. if strip x = [] then d else x"] if_False
        cong: if_cong)
qed

text \<open>
  A market report of one space with the analyst completed: the text resolved for
  the slot is the space, and the tab shows \<^verbatim>\<open>No content available yet.\<close>, not
  the raw content.
\<close>

theorem raw_content_claim_counterexample:
  "agent_statuses example_space ''Market Analyst'' = Some ''completed''
   \<and> current_reports example_space ''market_report'' = Some '' ''
   \<and> '' '' \<noteq> []
   \<and> map_of (validated_reports example_validate example_space) ''market_report'' = Some '' ''
   \<and> (\<exists>outs. update_tabs_content example_validate space_app (Some 1) = Inr outs
          \<and> outs ! 0 = Markdown ''No content available yet.''
          \<and> outs ! 0 \<noteq> Markdown '' '')"
proof -
  have page: "(1::int) \<le> 1" "1 \<le> int (length (symbol_states space_app))"
    "get_state space_app (map fst (symbol_states space_app) ! nat (1 - 1)) = Some example_space"
    by (simp_all add: space_app_def)
  have s: "agent_statuses example_space ''Market Analyst'' = Some ''completed''"
    and c: "current_reports example_space ''market_report'' = Some '' ''"
    by (simp_all add: example_space_def)
  have v: "validated_report example_validate ''market_report'' (Some '' '') (Some ''completed'')
      = '' ''"
    by (simp add: validated_report_def truthy_def text_of_def)
  have e: "map_of (validated_reports example_validate example_space) ''market_report'' =
      Some '' ''"
    by (simp only: validated_reports_lookup c s v)
  have blank: "strip '' '' = []"
    by (simp add: strip_def space1_def)
  have t: "tabs_of_state example_validate example_space ! 0 =
      Markdown ''No content available yet.''"
    by (simp add: analyst_tab_entries c s v create_markdown_content_def default_message_def
        blank)
  have run: "update_tabs_content example_validate space_app (Some 1) =
      Inr (tabs_of_state example_validate example_space)"
    using page by (rule update_tabs_content_found)
  have "\<exists>outs. update_tabs_content example_validate space_app (Some 1) = Inr outs
          \<and> outs ! 0 = Markdown ''No content available yet.''
          \<and> outs ! 0 \<noteq> Markdown '' ''"
    unfolding run using t by simp
  with s c e show ?thesis by simp
qed

text \<open>
  C1, amended: for each of the five analyst slots, independently, the text
  resolved for the slot is: the raw content when the status is \<^verbatim>\<open>completed\<close>
  and the content is not empty, whatever the validator would return; else the
  in-progress placeholder naming the slot when the status is \<^verbatim>\<open>in_progress\<close>,
  whatever the content; else the waiting placeholder when the status is
  \<^verbatim>\<open>pending\<close>; else the validator applied to the content when the content is
  not empty; else the not-available placeholder. The tab shows that text, except
  that a raw content or a validator result made of white space only is shown as
  \<^verbatim>\<open>No content available yet.\<close>; the three placeholders are always shown as
  they are.
\<close>

theorem analyst_slot_display:
  assumes slot: "(i, slot, agent, name) \<in> set
      [(0, ''market_report'', ''Market Analyst'', ''Market Report''),
       (1, ''sentiment_report'', ''Social Analyst'', ''Sentiment Report''),
       (2, ''news_report'', ''News Analyst'', ''News Report''),
       (3, ''fundamentals_report'', ''Fundamentals Analyst'', ''Fundamentals Report''),
       (4, ''macro_report'', ''Macro Analyst'', ''Macro Report'')]"
    and page: "1 \<le> p" "p \<le> int (length (symbol_states app))"
    and state: "get_state app (map fst (symbol_states app) ! nat (p - 1)) = Some state"
    and content: "content = current_reports state slot"
    and status: "status = agent_statuses state agent"
    and resolved: "resolved =
      (if status = Some ''completed'' \<and> content \<noteq> None \<and> content \<noteq> Some [] then the content
       else if status = Some ''in_progress''
       then [CHR 0xF0, CHR 0x9F, CHR 0x94, CHR 0x84] @ '' '' @ name @ '' - Analysis in progress...''
       else if status = Some ''pending''
       then [CHR 0xE2, CHR 0x8F, CHR 0xB3] @ '' '' @ name @ '' - Waiting to start...''
       else if content \<noteq> None \<and> content \<noteq> Some [] then validate slot (the content)
       else ''No '' @ name @ '' available yet.'')"
    and shown: "shown =
      (if status = Some ''completed'' \<and> content \<noteq> None \<and> content \<noteq> Some []
       then (if strip (the content) = [] then ''No content available yet.'' else the content)
       else if status = Some ''in_progress''
       then [CHR 0xF0, CHR 0x9F, CHR 0x94, CHR 0x84] @ '' '' @ name @ '' - Analysis in progress...''
       else if status = Some ''pending''
       then [CHR 0xE2, CHR 0x8F, CHR 0xB3] @ '' '' @ name @ '' - Waiting to start...''
       else if content \<noteq> None \<and> content \<noteq> Some []
       then (if strip (validate slot (the content)) = [] then ''No content available yet.''
             else validate slot (the content))
       else ''No '' @ name @ '' available yet.'')"
  shows "map_of (validated_reports validate state) slot = Some resolved
         \<and> (\<exists>outs. update_tabs_content validate app (Some p) = Inr outs
              \<and> outs ! i = Markdown shown)"
proof -
  note r = analyst_slot_resolved [where validate = validate, OF slot page state content status
      resolved]
  have "create_markdown_content resolved default_message = Markdown shown"
    unfolding resolved shown default_message_def
    by (rule shown_text [OF in_progress_not_blank waiting_not_blank not_available_not_blank])
  with r show ?thesis by (simp only:)
qed

theorem analyst_slot_display_witness:
  "(0, ''market_report'', ''Market Analyst'', ''Market Report'') \<in> set
      [(0::nat, ''market_report'', ''Market Analyst'', ''Market Report''),
       (1, ''sentiment_report'', ''Social Analyst'', ''Sentiment Report''),
       (2, ''news_report'', ''News Analyst'', ''News Report''),
       (3, ''fundamentals_report'', ''Fundamentals Analyst'', ''Fundamentals Report''),
       (4, ''macro_report'', ''Macro Analyst'', ''Macro Report'')]
   \<and> get_state example_app (map fst (symbol_states example_app) ! nat (1 - 1)) =
       Some example_partial
   \<and> current_reports example_partial ''market_report'' = Some ''Uptrend''
   \<and> agent_statuses example_partial ''Market Analyst'' = Some ''completed''
   \<and> example_validate ''market_report'' ''Uptrend'' = ''[checked] Uptrend''
   \<and> map_of (validated_reports example_validate example_partial) ''market_report'' =
       Some ''Uptrend''
   \<and> (\<exists>outs. update_tabs_content example_validate example_app (Some 1) = Inr outs
          \<and> outs ! 0 = Markdown ''Uptrend'')"
proof -
  have slot: "(0, ''market_report'', ''Market Analyst'', ''Market Report'') \<in> set
      [(0::nat, ''market_report'', ''Market Analyst'', ''Market Report''),
       (1, ''sentiment_report'', ''Social Analyst'', ''Sentiment Report''),
       (2, ''news_report'', ''News Analyst'', ''News Report''),
       (3, ''fundamentals_report'', ''Fundamentals Analyst'', ''Fundamentals Report''),
       (4, ''macro_report'', ''Macro Analyst'', ''Macro Report'')]"
    by simp
  have c: "current_reports example_partial ''market_report'' = Some ''Uptrend''"
    and s: "agent_statuses example_partial ''Market Analyst'' = Some ''completed''"
    by (simp_all add: example_partial_def)
  have v: "example_validate ''market_report'' ''Uptrend'' = ''[checked] Uptrend''"
    by (simp add: example_validate_def)
  have kept: "strip ''Uptrend'' \<noteq> []"
    by (simp add: strip_def space1_def space2_def space3_def)
  have res: "''Uptrend'' =
      (if Some ''completed'' = Some ''completed'' \<and> Some ''Uptrend'' \<noteq> None
            \<and> Some ''Uptrend'' \<noteq> Some [] then the (Some ''Uptrend'')
       else if Some ''completed'' = Some ''in_progress''
       then [CHR 0xF0, CHR 0x9F, CHR 0x94, CHR 0x84] @ '' '' @ ''Market Report''
              @ '' - Analysis in progress...''
       else if Some ''completed'' = Some ''pending''
       then [CHR 0xE2, CHR 0x8F, CHR 0xB3] @ '' '' @ ''Market Report'' @ '' - Waiting to start...''
       else if Some ''Uptrend'' \<noteq> None \<and> Some ''Uptrend'' \<noteq> Some []
       then example_validate ''market_report'' (the (Some ''Uptrend''))
       else ''No '' @ ''Market Report'' @ '' available yet.'')"
    by simp
  have sho: "''Uptrend'' =
      (if Some ''completed'' = Some ''completed'' \<and> Some ''Uptrend'' \<noteq> None
            \<and> Some ''Uptrend'' \<noteq> Some []
       then (if strip (the (Some ''Uptrend'')) = [] then ''No content available yet.''
             else the (Some ''Uptrend''))
       else if Some ''completed'' = Some ''in_progress''
       then [CHR 0xF0, CHR 0x9F, CHR 0x94, CHR 0x84] @ '' '' @ ''Market Report''
              @ '' - Analysis in progress...''
       else if Some ''completed'' = Some ''pending''
       then [CHR 0xE2, CHR 0x8F, CHR 0xB3] @ '' '' @ ''Market Report'' @ '' - Waiting to start...''
       else if Some ''Uptrend'' \<noteq> None \<and> Some ''Uptrend'' \<noteq> Some []
       then (if strip (example_validate ''market_report'' (the (Some ''Uptrend''))) = []
             then ''No content available yet.''
             else example_validate ''market_report'' (the (Some ''Uptrend'')))
       else ''No '' @ ''Market Report'' @ '' available yet.'')"
    using kept by simp
  note r = analyst_slot_display [where validate = example_validate and app = example_app
      and state = example_partial and content = "Some ''Uptrend''"
      and status = "Some ''completed''", OF slot example_page_1 c [symmetric] s [symmetric]
      res sho]
  from slot example_page_1(3) c s v r [THEN conjunct1] r [THEN conjunct2]
  show ?thesis by (intro conjI)
qed

subsection \<open>The decision summary\<close>

text \<open>
  Splitting never gives the empty list, so the last message of the risk debate is
  always found; it is the empty string when there is no history.
\<close>

lemma risk_debate_latest_eq:
  "risk_debate_latest state =
     Inr (last (split_on CHR ''\<newline>'' (text_of (risk_history state))))"
proof (cases "truthy (risk_history state)")
  case True
  then show ?thesis by (simp add: risk_debate_latest_def split_on_last)
next
  case False
  then have "text_of (risk_history state) = []"
    by (simp add: truthy_def text_of_def split: option.splits)
  with False show ?thesis by (simp add: risk_debate_latest_def)
qed

lemma py_or_chain:
  "(if truthy (py_or (py_or (py_or a (Some l)) t) r)
    then pre @ text_of (py_or (py_or (py_or a (Some l)) t) r) else []) =
   (case find (\<lambda>s. s \<noteq> []) [text_of a, l, text_of t, text_of r] of
      None \<Rightarrow> [] | Some d \<Rightarrow> pre @ d)"
  by (cases a; cases t; cases r) (simp_all add: py_or_def truthy_def text_of_def)

lemma partial_decision_text_eq:
  "partial_decision_text state =
     (if available_reports state \<noteq> []
      then Inr (''## Partial Analysis for '' @ ticker_symbol state @ ''\<newline>\<newline>''
           @ ''**Completed Reports:** '' @ join '', '' (available_reports state)
           @ ''\<newline>\<newline>''
           @ (case find (\<lambda>s. s \<noteq> [])
                  [text_of (current_reports state ''final_trade_decision''),
                   last (split_on CHR ''\<newline>'' (text_of (risk_history state))),
                   text_of (current_reports state ''trader_investment_plan''),
                   text_of (current_reports state ''research_manager_report'')] of
                None \<Rightarrow> []
              | Some d \<Rightarrow> ''**Current Decision:** Based on completed analysis\<newline>\<newline>'' @ d))
      else Inr ''Analysis not complete yet.'')"
  unfolding partial_decision_text_def risk_debate_latest_eq current_decision_def
  by (simp only: sum.case py_or_chain)

lemma decision_text_partial:
  "analysis_complete state \<noteq> Some True \<or> current_reports state ''final_trade_decision'' = None
   \<Longrightarrow> decision_text state = partial_decision_text state"
  by (auto simp add: decision_text_def split: option.splits)

lemma decision_text_final:
  "analysis_complete state = Some True \<Longrightarrow>
   current_reports state ''final_trade_decision'' = Some final \<Longrightarrow>
   decision_text state = Inr (final_decision_text state final)"
  by (simp add: decision_text_def)

lemma final_decision_text_heading:
  "take 4 (final_decision_text state final) = ''## F''"
  by (simp add: final_decision_text_def split: option.splits list.splits)

text \<open>
  C7: in the partial branch (the analysis is not confirmed complete, or there is
  no final report) with at least one artifact listed, the summary is the heading,
  the list of completed reports and, when one of the four candidates is not
  empty, the line \<^verbatim>\<open>Current Decision\<close> followed by the first candidate that is
  not empty, in the order: final report, last line of the risk-debate history
  split at newlines, trader investment plan, research manager report.
\<close>

theorem current_decision_precedence:
  assumes page: "1 \<le> p" "p \<le> int (length (symbol_states app))"
    and state: "get_state app (map fst (symbol_states app) ! nat (p - 1)) = Some state"
    and partial: "analysis_complete state \<noteq> Some True
                  \<or> current_reports state ''final_trade_decision'' = None"
    and present: "available_reports state \<noteq> []"
    and candidates: "candidates =
      [text_of (current_reports state ''final_trade_decision''),
       last (split_on CHR ''\<newline>'' (text_of (risk_history state))),
       text_of (current_reports state ''trader_investment_plan''),
       text_of (current_reports state ''research_manager_report'')]"
  shows "update_decision_summary app (Some p) =
     Inr (''## Partial Analysis for '' @ ticker_symbol state @ ''\<newline>\<newline>''
          @ ''**Completed Reports:** '' @ join '', '' (available_reports state)
          @ ''\<newline>\<newline>''
          @ (case find (\<lambda>s. s \<noteq> []) candidates of
               None \<Rightarrow> []
             | Some d \<Rightarrow> ''**Current Decision:** Based on completed analysis\<newline>\<newline>'' @ d))"
proof -
  have "update_decision_summary app (Some p) = partial_decision_text state"
    using page state partial
    by (simp only: update_decision_summary_found decision_text_partial)
  with present show ?thesis
    unfolding candidates by (simp only: partial_decision_text_eq if_True not_False_eq_True)
qed

lemma example_page_3:
  "(1::int) \<le> 3" "3 \<le> int (length (symbol_states example_app))"
  "get_state example_app (map fst (symbol_states example_app) ! nat (3 - 1)) = Some example_debate"
  by (simp_all add: example_app_def)

lemma example_debate_reports: "available_reports example_debate =
    [''Research Manager Decision'', ''Trader Investment Plan'', ''Risk Debate'']"
  by (simp add: available_reports_def example_debate_def truthy_def risk_history_def)

theorem current_decision_precedence_witness:
  "analysis_complete example_debate = None
   \<and> current_reports example_debate ''final_trade_decision'' = None
   \<and> available_reports example_debate \<noteq> []
   \<and> update_decision_summary example_app (Some 3) =
     Inr (''## Partial Analysis for TSLA\<newline>\<newline>''
          @ ''**Completed Reports:** Research Manager Decision, Trader Investment Plan, Risk Debate''
          @ ''\<newline>\<newline>''
          @ ''**Current Decision:** Based on completed analysis\<newline>\<newline>''
          @ ''Safe: HOLD'')"
proof -
  have partial: "analysis_complete example_debate \<noteq> Some True
      \<or> current_reports example_debate ''final_trade_decision'' = None"
    by (simp add: example_debate_def)
  have present: "available_reports example_debate \<noteq> []"
    by (simp add: example_debate_reports)
  have candidates: "[[], ''Safe: HOLD'', ''Buy 10'', ''Long''] =
      [text_of (current_reports example_debate ''final_trade_decision''),
       last (split_on CHR ''\<newline>'' (text_of (risk_history example_debate))),
       text_of (current_reports example_debate ''trader_investment_plan''),
       text_of (current_reports example_debate ''research_manager_report'')]"
    by (simp add: example_debate_def text_of_def risk_history_def)
  have "update_decision_summary example_app (Some 3) =
     Inr (''## Partial Analysis for TSLA\<newline>\<newline>''
          @ ''**Completed Reports:** Research Manager Decision, Trader Investment Plan, Risk Debate''
          @ ''\<newline>\<newline>''
          @ ''**Current Decision:** Based on completed analysis\<newline>\<newline>''
          @ ''Safe: HOLD'')"
    unfolding current_decision_precedence [OF example_page_3 partial present candidates]
      example_debate_reports
    by (simp add: example_debate_def)
  moreover have "analysis_complete example_debate = None"
    and "current_reports example_debate ''final_trade_decision'' = None"
    by (simp_all add: example_debate_def)
  ultimately show ?thesis using present by (intro conjI)
qed

lemma available_reports_final:
  "current_reports state ''final_trade_decision'' \<noteq> None \<Longrightarrow> available_reports state \<noteq> []"
  by (simp add: available_reports_def)

text \<open>
  C2: when \<^verbatim>\<open>analysis_complete\<close> is false or absent and the final report is a
  string that is not empty, \<^verbatim>\<open>update_decision_summary\<close> returns the partial
  summary, whose \<^verbatim>\<open>Current Decision\<close> is that report (the first of the four
  candidates). The result is not the text of the \<^verbatim>\<open>Final Decision\<close> branch,
  for any final report.
\<close>

theorem final_report_not_final_before_complete:
  assumes page: "1 \<le> p" "p \<le> int (length (symbol_states app))"
    and state: "get_state app (map fst (symbol_states app) ! nat (p - 1)) = Some state"
    and incomplete: "analysis_complete state = None \<or> analysis_complete state = Some False"
    and final: "current_reports state ''final_trade_decision'' = Some final" "final \<noteq> []"
  shows "update_decision_summary app (Some p) =
     Inr (''## Partial Analysis for '' @ ticker_symbol state @ ''\<newline>\<newline>''
          @ ''**Completed Reports:** '' @ join '', '' (available_reports state)
          @ ''\<newline>\<newline>''
          @ ''**Current Decision:** Based on completed analysis\<newline>\<newline>'' @ final)
     \<and> (\<forall>body. update_decision_summary app (Some p) \<noteq> Inr (final_decision_text state body))"
proof -
  from incomplete have partial: "analysis_complete state \<noteq> Some True
      \<or> current_reports state ''final_trade_decision'' = None"
    by auto
  have present: "available_reports state \<noteq> []"
    using final(1) by (simp add: available_reports_final)
  have run: "update_decision_summary app (Some p) = partial_decision_text state"
    using page state partial
    by (simp only: update_decision_summary_found decision_text_partial)
  have eq: "update_decision_summary app (Some p) =
     Inr (''## Partial Analysis for '' @ ticker_symbol state @ ''\<newline>\<newline>''
          @ ''**Completed Reports:** '' @ join '', '' (available_reports state)
          @ ''\<newline>\<newline>''
          @ ''**Current Decision:** Based on completed analysis\<newline>\<newline>'' @ final)"
    unfolding run partial_decision_text_eq using present final
    by (simp add: text_of_def)
  have "update_decision_summary app (Some p) \<noteq> Inr (final_decision_text state body)" for body
  proof
    assume "update_decision_summary app (Some p) = Inr (final_decision_text state body)"
    then have "take 4 (''## Partial Analysis for '' @ ticker_symbol state @ ''\<newline>\<newline>''
          @ ''**Completed Reports:** '' @ join '', '' (available_reports state)
          @ ''\<newline>\<newline>''
          @ ''**Current Decision:** Based on completed analysis\<newline>\<newline>'' @ final) = ''## F''"
      unfolding eq by (simp only: sum.inject final_decision_text_heading)
    then show False by simp
  qed
  with eq show ?thesis by blast
qed

lemma example_partial_reports: "available_reports example_partial =
    [''Market Analysis'', ''News Analysis'', ''Fundamentals Analysis'', ''Risk Debate'',
     ''Portfolio Manager Final Decision'']"
  by (simp add: available_reports_def example_partial_def truthy_def risk_history_def)

theorem final_report_not_final_before_complete_witness:
  "analysis_complete example_partial = Some False
   \<and> current_reports example_partial ''final_trade_decision'' = Some ''BUY''
   \<and> update_decision_summary example_app (Some 1) =
     Inr (''## Partial Analysis for AAPL\<newline>\<newline>''
          @ ''**Completed Reports:** Market Analysis, News Analysis, Fundamentals Analysis, ''
          @ ''Risk Debate, Portfolio Manager Final Decision''
          @ ''\<newline>\<newline>''
          @ ''**Current Decision:** Based on completed analysis\<newline>\<newline>''
          @ ''BUY'')"
proof -
  have c: "analysis_complete example_partial = Some False"
    and f: "current_reports example_partial ''final_trade_decision'' = Some ''BUY''"
    and n: "''BUY'' \<noteq> []"
    and t: "ticker_symbol example_partial = ''AAPL''"
    by (simp_all add: example_partial_def)
  from c have i: "analysis_complete example_partial = None
      \<or> analysis_complete example_partial = Some False" ..
  note r = final_report_not_final_before_complete [OF example_page_1 i f n, THEN conjunct1]
  have "update_decision_summary example_app (Some 1) =
     Inr (''## Partial Analysis for AAPL\<newline>\<newline>''
          @ ''**Completed Reports:** Market Analysis, News Analysis, Fundamentals Analysis, ''
          @ ''Risk Debate, Portfolio Manager Final Decision''
          @ ''\<newline>\<newline>''
          @ ''**Current Decision:** Based on completed analysis\<newline>\<newline>''
          @ ''BUY'')"
    unfolding r example_partial_reports t by simp
  with c f show ?thesis by (intro conjI)
qed

lemma available_reports_members:
  "''Market Analysis'' \<in> set (available_reports state)
     \<longleftrightarrow> truthy (current_reports state ''market_report'')"
  "''Social Media Sentiment'' \<in> set (available_reports state)
     \<longleftrightarrow> truthy (current_reports state ''sentiment_report'')"
  "''News Analysis'' \<in> set (available_reports state)
     \<longleftrightarrow> truthy (current_reports state ''news_report'')"
  "''Fundamentals Analysis'' \<in> set (available_reports state)
     \<longleftrightarrow> truthy (current_reports state ''fundamentals_report'')"
  "''Macro Analysis'' \<in> set (available_reports state)
     \<longleftrightarrow> truthy (current_reports state ''macro_report'')"
  "''Research Manager Decision'' \<in> set (available_reports state)
     \<longleftrightarrow> truthy (current_reports state ''research_manager_report'')"
  "''Trader Investment Plan'' \<in> set (available_reports state)
     \<longleftrightarrow> truthy (current_reports state ''trader_investment_plan'')"
  "''Risk Debate'' \<in> set (available_reports state) \<longleftrightarrow> truthy (risk_history state)"
  "''Portfolio Manager Final Decision'' \<in> set (available_reports state)
     \<longleftrightarrow> current_reports state ''final_trade_decision'' \<noteq> None"
  by (simp_all add: available_reports_def)

text \<open>
  C10: the final report counts as present when it is not \<^verbatim>\<open>None\<close>. With the
  empty string as final report: when the analysis is complete the
  \<^verbatim>\<open>Final Decision\<close> branch is taken, and without structured results the text
  ends with the heading \<^verbatim>\<open>Full Analysis\<close> and an empty body; when it is not
  complete the partial summary lists \<^verbatim>\<open>Portfolio Manager Final Decision\<close>
  as the last completed report. That entry is listed exactly when the final
  report is not \<^verbatim>\<open>None\<close>; each of the other eight is listed exactly when its
  text is truthy.
\<close>

theorem final_report_presence_is_not_none:
  assumes page: "1 \<le> p" "p \<le> int (length (symbol_states app))"
    and state: "get_state app (map fst (symbol_states app) ! nat (p - 1)) = Some state"
    and blank: "current_reports state ''final_trade_decision'' = Some []"
  shows "(analysis_complete state = Some True \<longrightarrow>
            update_decision_summary app (Some p) = Inr (final_decision_text state [])
            \<and> (analysis_results state = None \<or> analysis_results state = Some [] \<longrightarrow>
                 update_decision_summary app (Some p) =
                   Inr (''## Final Decision for '' @ ticker_symbol state @ ''\<newline>\<newline>''
                        @ (if truthy (recommended_action state)
                           then ''**'' @ [CHR 0xF0, CHR 0x9F, CHR 0x93, CHR 0x88]
                                @ '' RECOMMENDED ACTION: '' @ text_of (recommended_action state)
                                @ ''**\<newline>\<newline>''
                           else [])
                        @ ''**Full Analysis:**\<newline>''))
            \<and> (\<forall>r rs. analysis_results state = Some (r # rs) \<longrightarrow>
                 update_decision_summary app (Some p) =
                   Inr (''## Final Decision for '' @ ticker_symbol state @ ''\<newline>\<newline>''
                        @ ''**Trade Action:** '' @ get_default (r # rs) ''decision'' ''No decision''
                        @ ''\<newline>\<newline>''
                        @ ''**Date:** '' @ get_default (r # rs) ''date'' ''N/A'')))
         \<and> (analysis_complete state \<noteq> Some True \<longrightarrow>
            update_decision_summary app (Some p) =
              Inr (''## Partial Analysis for '' @ ticker_symbol state @ ''\<newline>\<newline>''
                   @ ''**Completed Reports:** '' @ join '', '' (available_reports state)
                   @ ''\<newline>\<newline>''
                   @ (case find (\<lambda>s. s \<noteq> [])
                          [last (split_on CHR ''\<newline>'' (text_of (risk_history state))),
                           text_of (current_reports state ''trader_investment_plan''),
                           text_of (current_reports state ''research_manager_report'')] of
                        None \<Rightarrow> []
                      | Some d \<Rightarrow>
                          ''**Current Decision:** Based on completed analysis\<newline>\<newline>'' @ d))
            \<and> available_reports state \<noteq> []
            \<and> last (available_reports state) = ''Portfolio Manager Final Decision'')
         \<and> (''Portfolio Manager Final Decision'' \<in> set (available_reports state)
              \<longleftrightarrow> current_reports state ''final_trade_decision'' \<noteq> None)
         \<and> (''Market Analysis'' \<in> set (available_reports state)
              \<longleftrightarrow> truthy (current_reports state ''market_report''))
         \<and> (''Social Media Sentiment'' \<in> set (available_reports state)
              \<longleftrightarrow> truthy (current_reports state ''sentiment_report''))
         \<and> (''News Analysis'' \<in> set (available_reports state)
              \<longleftrightarrow> truthy (current_reports state ''news_report''))
         \<and> (''Fundamentals Analysis'' \<in> set (available_reports state)
              \<longleftrightarrow> truthy (current_reports state ''fundamentals_report''))
         \<and> (''Macro Analysis'' \<in> set (available_reports state)
              \<longleftrightarrow> truthy (current_reports state ''macro_report''))
         \<and> (''Research Manager Decision'' \<in> set (available_reports state)
              \<longleftrightarrow> truthy (current_reports state ''research_manager_report''))
         \<and> (''Trader Investment Plan'' \<in> set (available_reports state)
              \<longleftrightarrow> truthy (current_reports state ''trader_investment_plan''))
         \<and> (''Risk Debate'' \<in> set (available_reports state) \<longleftrightarrow> truthy (risk_history state))"
proof -
  have found: "update_decision_summary app (Some p) = decision_text state"
    using page state by (rule update_decision_summary_found)
  have complete: "update_decision_summary app (Some p) = Inr (final_decision_text state [])"
    if "analysis_complete state = Some True"
    unfolding found using that blank by (rule decision_text_final)
  have free_text: "update_decision_summary app (Some p) =
      Inr (''## Final Decision for '' @ ticker_symbol state @ ''\<newline>\<newline>''
           @ (if truthy (recommended_action state)
              then ''**'' @ [CHR 0xF0, CHR 0x9F, CHR 0x93, CHR 0x88]
                   @ '' RECOMMENDED ACTION: '' @ text_of (recommended_action state)
                   @ ''**\<newline>\<newline>''
              else [])
           @ ''**Full Analysis:**\<newline>'')"
    if "analysis_complete state = Some True"
      and "analysis_results state = None \<or> analysis_results state = Some []"
    unfolding complete [OF that(1)] using that(2)
    by (auto simp add: final_decision_text_def)
  have structured: "update_decision_summary app (Some p) =
      Inr (''## Final Decision for '' @ ticker_symbol state @ ''\<newline>\<newline>''
           @ ''**Trade Action:** '' @ get_default (r # rs) ''decision'' ''No decision''
           @ ''\<newline>\<newline>''
           @ ''**Date:** '' @ get_default (r # rs) ''date'' ''N/A'')"
    if "analysis_complete state = Some True" and "analysis_results state = Some (r # rs)"
    for r rs
    unfolding complete [OF that(1)] using that(2)
    by (simp add: final_decision_text_def)
  have listed: "available_reports state \<noteq> []"
    and last_listed: "last (available_reports state) = ''Portfolio Manager Final Decision''"
    using blank by (simp_all add: available_reports_def)
  have partial: "update_decision_summary app (Some p) =
      Inr (''## Partial Analysis for '' @ ticker_symbol state @ ''\<newline>\<newline>''
           @ ''**Completed Reports:** '' @ join '', '' (available_reports state)
           @ ''\<newline>\<newline>''
           @ (case find (\<lambda>s. s \<noteq> [])
                  [last (split_on CHR ''\<newline>'' (text_of (risk_history state))),
                   text_of (current_reports state ''trader_investment_plan''),
                   text_of (current_reports state ''research_manager_report'')] of
                None \<Rightarrow> []
              | Some d \<Rightarrow>
                  ''**Current Decision:** Based on completed analysis\<newline>\<newline>'' @ d))"
    if "analysis_complete state \<noteq> Some True"
  proof -
    from that have "decision_text state = partial_decision_text state"
      by (simp add: decision_text_partial)
    then show ?thesis
      unfolding found partial_decision_text_eq using listed blank
      by (simp add: text_of_def)
  qed
  have when_complete: "analysis_complete state = Some True \<longrightarrow>
      update_decision_summary app (Some p) = Inr (final_decision_text state [])
      \<and> (analysis_results state = None \<or> analysis_results state = Some [] \<longrightarrow>
           update_decision_summary app (Some p) =
             Inr (''## Final Decision for '' @ ticker_symbol state @ ''\<newline>\<newline>''
                  @ (if truthy (recommended_action state)
                     then ''**'' @ [CHR 0xF0, CHR 0x9F, CHR 0x93, CHR 0x88]
                          @ '' RECOMMENDED ACTION: '' @ text_of (recommended_action state)
                          @ ''**\<newline>\<newline>''
                     else [])
                  @ ''**Full Analysis:**\<newline>''))
      \<and> (\<forall>r rs. analysis_results state = Some (r # rs) \<longrightarrow>
           update_decision_summary app (Some p) =
             Inr (''## Final Decision for '' @ ticker_symbol state @ ''\<newline>\<newline>''
                  @ ''**Trade Action:** '' @ get_default (r # rs) ''decision'' ''No decision''
                  @ ''\<newline>\<newline>''
                  @ ''**Date:** '' @ get_default (r # rs) ''date'' ''N/A''))"
    using complete free_text structured by (intro impI conjI allI)
  have when_partial: "analysis_complete state \<noteq> Some True \<longrightarrow>
      update_decision_summary app (Some p) =
        Inr (''## Partial Analysis for '' @ ticker_symbol state @ ''\<newline>\<newline>''
             @ ''**Completed Reports:** '' @ join '', '' (available_reports state)
             @ ''\<newline>\<newline>''
             @ (case find (\<lambda>s. s \<noteq> [])
                    [last (split_on CHR ''\<newline>'' (text_of (risk_history state))),
                     text_of (current_reports state ''trader_investment_plan''),
                     text_of (current_reports state ''research_manager_report'')] of
                  None \<Rightarrow> []
                | Some d \<Rightarrow>
                    ''**Current Decision:** Based on completed analysis\<newline>\<newline>'' @ d))
      \<and> available_reports state \<noteq> []
      \<and> last (available_reports state) = ''Portfolio Manager Final Decision''"
    using partial listed last_listed by (intro impI conjI)
  show ?thesis
    by (intro conjI when_complete when_partial available_reports_members)
qed

lemma example_page_2:
  "(1::int) \<le> 2" "2 \<le> int (length (symbol_states example_app))"
  "get_state example_app (map fst (symbol_states example_app) ! nat (2 - 1)) = Some example_done"
  by (simp_all add: example_app_def)

lemma blank_page_1:
  "(1::int) \<le> 1" "1 \<le> int (length (symbol_states blank_app))"
  "get_state blank_app (map fst (symbol_states blank_app) ! nat (1 - 1)) = Some example_blank"
  by (simp_all add: blank_app_def)

theorem final_report_presence_is_not_none_witness:
  "current_reports example_done ''final_trade_decision'' = Some []
   \<and> analysis_complete example_done = Some True
   \<and> analysis_results example_done = None
   \<and> update_decision_summary example_app (Some 2) =
       Inr (''## Final Decision for MSFT\<newline>\<newline>''
            @ ''**'' @ [CHR 0xF0, CHR 0x9F, CHR 0x93, CHR 0x88] @ '' RECOMMENDED ACTION: SELL''
            @ ''**\<newline>\<newline>'' @ ''**Full Analysis:**\<newline>'')
   \<and> current_reports example_blank ''final_trade_decision'' = Some []
   \<and> analysis_complete example_blank = Some False
   \<and> update_decision_summary blank_app (Some 1) =
       Inr (''## Partial Analysis for AMD\<newline>\<newline>''
            @ ''**Completed Reports:** Portfolio Manager Final Decision\<newline>\<newline>'')"
proof -
  have d: "current_reports example_done ''final_trade_decision'' = Some []"
    "analysis_complete example_done = Some True"
    "analysis_results example_done = None"
    by (simp_all add: example_done_def)
  have b: "current_reports example_blank ''final_trade_decision'' = Some []"
    "analysis_complete example_blank = Some False"
    by (simp_all add: example_blank_def)
  from b(2) have nb: "analysis_complete example_blank \<noteq> Some True" by simp
  from d(3) have nr: "analysis_results example_done = None
      \<or> analysis_results example_done = Some []" ..
  note done_part = final_report_presence_is_not_none [OF example_page_2 d(1),
      THEN conjunct1, THEN mp, OF d(2), THEN conjunct2, THEN conjunct1, THEN mp, OF nr]
  note blank_part = final_report_presence_is_not_none [OF blank_page_1 b(1),
      THEN conjunct2, THEN conjunct1, THEN mp, OF nb, THEN conjunct1]
  have blank_reports: "available_reports example_blank = [''Portfolio Manager Final Decision'']"
    by (simp add: available_reports_def example_blank_def truthy_def risk_history_def)
  have r1: "update_decision_summary example_app (Some 2) =
       Inr (''## Final Decision for MSFT\<newline>\<newline>''
            @ ''**'' @ [CHR 0xF0, CHR 0x9F, CHR 0x93, CHR 0x88] @ '' RECOMMENDED ACTION: SELL''
            @ ''**\<newline>\<newline>'' @ ''**Full Analysis:**\<newline>'')"
    unfolding done_part by (simp add: example_done_def truthy_def text_of_def)
  have r2: "update_decision_summary blank_app (Some 1) =
       Inr (''## Partial Analysis for AMD\<newline>\<newline>''
            @ ''**Completed Reports:** Portfolio Manager Final Decision\<newline>\<newline>'')"
    unfolding blank_part blank_reports
    by (simp add: example_blank_def text_of_def risk_history_def)
  from d b r1 r2 show ?thesis by (intro conjI)
qed

subsection \<open>The click on a symbol button\<close>

text \<open>The loop over \<^verbatim>\<open>enumerate(symbols)\<close> builds the button of every position.\<close>

lemma enumerate_buttons:
  "map (\<lambda>(j, symbol). f symbol j) (enumerate 0 xs) = map (\<lambda>j. f (xs ! j) j) [0..<length xs]"
  by (rule nth_equalityI) (simp_all add: nth_enumerate_eq)

lemma click_without_event:
  "\<not> any_clicks symbol_clicks \<or> triggered = [] \<Longrightarrow>
   handle_report_symbol_click json_loads app symbol_clicks triggered =
     Inr (app, no_update, no_update, no_update)"
  by (auto simp add: handle_report_symbol_click_def)

lemma click_other_trigger:
  "any_clicks symbol_clicks \<Longrightarrow> \<not> str_contains button_id ''symbol-btn'' \<Longrightarrow>
   handle_report_symbol_click json_loads app symbol_clicks (button_id # rest) =
     Inr (app, no_update, no_update, no_update)"
  by (simp add: handle_report_symbol_click_def py_index_first)

lemma click_decoded:
  assumes "any_clicks symbol_clicks" and "str_contains button_id ''symbol-btn''"
    and "json_loads (takeWhile (\<lambda>c. c \<noteq> CHR ''.'') button_id) = Inr button_data"
    and "button_data ''index'' = Some (JInt i)"
  shows "handle_report_symbol_click json_loads app symbol_clicks (button_id # rest) =
     (let symbols = map fst (symbol_states app) in
      if 0 \<le> i \<and> i < int (length symbols)
      then Inr (app\<lparr>current_symbol := Some (symbols ! nat i)\<rparr>, Update (i + 1), Update (i + 1),
             Update (if length symbols > 1
                     then Wrapper
                            (map (\<lambda>j. create_symbol_button (symbols ! j) j (int j = i))
                               [0..<length symbols])
                            (''Showing '' @ str_of_nat (length symbols) @ '' symbols'')
                     else ButtonGroup
                            (map (\<lambda>j. create_symbol_button (symbols ! j) j (int j = i))
                               [0..<length symbols])))
      else Inr (app, no_update, no_update, no_update))"
proof (cases "0 \<le> i \<and> i < int (length (symbol_states app))")
  case True
  then have "py_index (map fst (symbol_states app)) i = Inr (map fst (symbol_states app) ! nat i)"
    by (simp add: py_index_def)
  with True assms show ?thesis
    by (simp add: handle_report_symbol_click_def py_index_first split_on_first Let_def
        enumerate_buttons del: str_of_nat.simps)
next
  case False
  with assms show ?thesis
    by (auto simp add: handle_report_symbol_click_def py_index_first split_on_first Let_def
        simp del: str_of_nat.simps)
qed

text \<open>
  C6: a click whose trigger is a symbol button with the decoded index \<open>i\<close>. When
  \<open>0 \<le> i < len(symbols)\<close> the handler stores \<open>symbols[i]\<close> as the current
  symbol and returns the page \<open>i + 1\<close> for both pagination outputs, with the
  buttons rebuilt so that the button at position \<open>i\<close>, and no other, is marked
  active. When no click is recorded, when nothing triggered, when the trigger is
  not a symbol button, or when \<open>i\<close> is out of range, the three outputs are
  \<^verbatim>\<open>no_update\<close> and the state is unchanged.
\<close>

theorem symbol_click_sets_page:
  assumes symbols: "symbols = map fst (symbol_states app)"
    and buttons: "buttons =
      map (\<lambda>j. \<lparr>label = symbols ! j, button_index = j,
                 color = (if int j = i then ''primary'' else ''outline-primary''),
                 className = ''symbol-btn '' @ (if int j = i then ''active'' else [])\<rparr>)
        [0..<length symbols]"
  shows "(\<not> any_clicks symbol_clicks \<or> triggered = [] \<longrightarrow>
            handle_report_symbol_click json_loads app symbol_clicks triggered =
              Inr (app, no_update, no_update, no_update))
         \<and> (any_clicks symbol_clicks \<and> \<not> str_contains button_id ''symbol-btn'' \<longrightarrow>
            handle_report_symbol_click json_loads app symbol_clicks (button_id # rest) =
              Inr (app, no_update, no_update, no_update))
         \<and> (any_clicks symbol_clicks \<and> str_contains button_id ''symbol-btn''
              \<and> json_loads (takeWhile (\<lambda>c. c \<noteq> CHR ''.'') button_id) = Inr button_data
              \<and> button_data ''index'' = Some (JInt i) \<longrightarrow>
            handle_report_symbol_click json_loads app symbol_clicks (button_id # rest) =
              (if 0 \<le> i \<and> i < int (length symbols)
               then Inr (app\<lparr>current_symbol := Some (symbols ! nat i)\<rparr>,
                         Update (i + 1), Update (i + 1),
                         Update (if length symbols > 1
                                 then Wrapper buttons
                                        (''Showing '' @ str_of_nat (length symbols) @ '' symbols'')
                                 else ButtonGroup buttons))
               else Inr (app, no_update, no_update, no_update)))"
proof (intro conjI impI)
  assume "\<not> any_clicks symbol_clicks \<or> triggered = []"
  then show "handle_report_symbol_click json_loads app symbol_clicks triggered =
      Inr (app, no_update, no_update, no_update)"
    by (rule click_without_event)
next
  assume "any_clicks symbol_clicks \<and> \<not> str_contains button_id ''symbol-btn''"
  then show "handle_report_symbol_click json_loads app symbol_clicks (button_id # rest) =
      Inr (app, no_update, no_update, no_update)"
    by (simp add: click_other_trigger)
next
  assume a: "any_clicks symbol_clicks \<and> str_contains button_id ''symbol-btn''
      \<and> json_loads (takeWhile (\<lambda>c. c \<noteq> CHR ''.'') button_id) = Inr button_data
      \<and> button_data ''index'' = Some (JInt i)"
  have b: "buttons =
      map (\<lambda>j. create_symbol_button (symbols ! j) j (int j = i)) [0..<length symbols]"
    unfolding buttons by (simp add: create_symbol_button_def)
  from a have "handle_report_symbol_click json_loads app symbol_clicks (button_id # rest) =
     (let symbols = map fst (symbol_states app) in
      if 0 \<le> i \<and> i < int (length symbols)
      then Inr (app\<lparr>current_symbol := Some (symbols ! nat i)\<rparr>, Update (i + 1), Update (i + 1),
             Update (if length symbols > 1
                     then Wrapper
                            (map (\<lambda>j. create_symbol_button (symbols ! j) j (int j = i))
                               [0..<length symbols])
                            (''Showing '' @ str_of_nat (length symbols) @ '' symbols'')
                     else ButtonGroup
                            (map (\<lambda>j. create_symbol_button (symbols ! j) j (int j = i))
                               [0..<length symbols])))
      else Inr (app, no_update, no_update, no_update))"
    by (elim conjE) (rule click_decoded)
  then show "handle_report_symbol_click json_loads app symbol_clicks (button_id # rest) =
      (if 0 \<le> i \<and> i < int (length symbols)
       then Inr (app\<lparr>current_symbol := Some (symbols ! nat i)\<rparr>,
                 Update (i + 1), Update (i + 1),
                 Update (if length symbols > 1
                         then Wrapper buttons
                                (''Showing '' @ str_of_nat (length symbols) @ '' symbols'')
                         else ButtonGroup buttons))
       else Inr (app, no_update, no_update, no_update))"
    unfolding b symbols Let_def by (simp only: if_distrib [of Update] cong: if_cong)
qed

lemma str_of_nat_4: "str_of_nat (Suc (Suc (Suc (Suc 0)))) = ''4''"
proof -
  have "str_of_nat 4 = ''4''" by code_simp
  moreover have "Suc (Suc (Suc (Suc 0))) = 4" by simp
  ultimately show ?thesis by (simp only:)
qed

lemma example_button_id_head:
  "takeWhile (\<lambda>c. c \<noteq> CHR ''.'') (example_button_id @ ''.n_clicks'') = example_button_id"
  by (simp add: example_button_id_def)

theorem symbol_click_sets_page_witness:
  "any_clicks [None, Some 1, None, None]
   \<and> str_contains (example_button_id @ ''.n_clicks'') ''symbol-btn''
   \<and> handle_report_symbol_click example_json_loads example_app [None, Some 1, None, None]
         [example_button_id @ ''.n_clicks''] =
       Inr (example_app\<lparr>current_symbol := Some ''MSFT''\<rparr>, Update 2, Update 2,
            Update (Wrapper
              [\<lparr>label = ''AAPL'', button_index = 0, color = ''outline-primary'',
                className = ''symbol-btn ''\<rparr>,
               \<lparr>label = ''MSFT'', button_index = 1, color = ''primary'',
                className = ''symbol-btn active''\<rparr>,
               \<lparr>label = ''TSLA'', button_index = 2, color = ''outline-primary'',
                className = ''symbol-btn ''\<rparr>,
               \<lparr>label = ''NVDA'', button_index = 3, color = ''outline-primary'',
                className = ''symbol-btn ''\<rparr>]
              ''Showing 4 symbols''))
   \<and> handle_report_symbol_click example_json_loads example_app [None, Some 0, None, None]
         [example_button_id @ ''.n_clicks''] =
       Inr (example_app, no_update, no_update, no_update)"
proof -
  have clicks: "any_clicks [None, Some 1, None, None]"
    and no_clicks: "\<not> any_clicks [None, Some 0, None, None]
        \<or> [example_button_id @ ''.n_clicks''] = []"
    by (simp_all add: any_clicks_def)
  have btn: "str_contains (example_button_id @ ''.n_clicks'') ''symbol-btn''"
    by (simp add: example_button_id_def)
  have loads: "example_json_loads
        (takeWhile (\<lambda>c. c \<noteq> CHR ''.'') (example_button_id @ ''.n_clicks'')) =
      Inr [''component'' \<mapsto> JStr ''reports'', ''index'' \<mapsto> JInt 1,
           ''type'' \<mapsto> JStr ''symbol-btn'']"
    unfolding example_button_id_head by (simp add: example_json_loads_def)
  have ix: "[''component'' \<mapsto> JStr ''reports'', ''index'' \<mapsto> JInt 1,
      ''type'' \<mapsto> JStr ''symbol-btn''] ''index'' = Some (JInt 1)"
    by simp
  have symbols: "[''AAPL'', ''MSFT'', ''TSLA'', ''NVDA''] = map fst (symbol_states example_app)"
    by (simp add: example_app_def)
  have buttons: "[\<lparr>label = ''AAPL'', button_index = 0, color = ''outline-primary'',
                className = ''symbol-btn ''\<rparr>,
               \<lparr>label = ''MSFT'', button_index = 1, color = ''primary'',
                className = ''symbol-btn active''\<rparr>,
               \<lparr>label = ''TSLA'', button_index = 2, color = ''outline-primary'',
                className = ''symbol-btn ''\<rparr>,
               \<lparr>label = ''NVDA'', button_index = 3, color = ''outline-primary'',
                className = ''symbol-btn ''\<rparr>] =
      map (\<lambda>j. \<lparr>label = [''AAPL'', ''MSFT'', ''TSLA'', ''NVDA''] ! j, button_index = j,
                 color = (if int j = 1 then ''primary'' else ''outline-primary''),
                 className = ''symbol-btn '' @ (if int j = 1 then ''active'' else [])\<rparr>)
        [0..<length [''AAPL'', ''MSFT'', ''TSLA'', ''NVDA'']]"
    by (simp add: upt_rec)
  note r = symbol_click_sets_page [where json_loads = example_json_loads
      and button_id = "example_button_id @ ''.n_clicks''" and rest = "[]"
      and button_data = "[''component'' \<mapsto> JStr ''reports'', ''index'' \<mapsto> JInt 1,
        ''type'' \<mapsto> JStr ''symbol-btn'']", OF symbols buttons]
  have hit: "handle_report_symbol_click example_json_loads example_app [None, Some 1, None, None]
         [example_button_id @ ''.n_clicks''] =
       Inr (example_app\<lparr>current_symbol := Some ''MSFT''\<rparr>, Update 2, Update 2,
            Update (Wrapper
              [\<lparr>label = ''AAPL'', button_index = 0, color = ''outline-primary'',
                className = ''symbol-btn ''\<rparr>,
               \<lparr>label = ''MSFT'', button_index = 1, color = ''primary'',
                className = ''symbol-btn active''\<rparr>,
               \<lparr>label = ''TSLA'', button_index = 2, color = ''outline-primary'',
                className = ''symbol-btn ''\<rparr>,
               \<lparr>label = ''NVDA'', button_index = 3, color = ''outline-primary'',
                className = ''symbol-btn ''\<rparr>]
              ''Showing 4 symbols''))"
    using r [where symbol_clicks = "[None, Some 1, None, None]", THEN conjunct2,
        THEN conjunct2, THEN mp, OF conjI [OF clicks conjI [OF btn conjI [OF loads ix]]]]
    by (simp add: str_of_nat_4 del: str_of_nat.simps)
  have miss: "handle_report_symbol_click example_json_loads example_app
         [None, Some 0, None, None] [example_button_id @ ''.n_clicks''] =
       Inr (example_app, no_update, no_update, no_update)"
    using r [where symbol_clicks = "[None, Some 0, None, None]"
        and triggered = "[example_button_id @ ''.n_clicks'']", THEN conjunct1, THEN mp,
        OF no_clicks] .
  from clicks btn hit miss show ?thesis by (intro conjI)
qed

end
